theory Spec2Isabelle
  imports Main "HOL-Library.Sublist"
begin

section \<open>The mirroring core of bit-to-hub (class GitManager)\<close>

text \<open>
  The class \<^verbatim>\<open>GitManager\<close> drives git and the file system through
  \<^verbatim>\<open>simple-git\<close>, \<^verbatim>\<open>fs/promises\<close> and \<^verbatim>\<open>child_process.spawn\<close>.
  The embedding passes an explicit state through every method: the directories that exist
  and a transcript of every call made to the outside together with its answer. What the
  outside answers is given by an environment of response functions, which may look at the
  whole state, so a response can differ from call to call. A thrown \<^verbatim>\<open>Error\<close> is the
  value \<open>Inl message\<close>.
\<close>

subsection \<open>Strings as JavaScript uses them\<close>

text \<open>\<^verbatim>\<open>s.includes(sub)\<close>: \<open>sub\<close> occurs in \<open>s\<close> as a contiguous, case-sensitive run.\<close>

fun str_includes :: "string \<Rightarrow> string \<Rightarrow> bool" where
  "str_includes [] sub = (sub = [])"
| "str_includes (c # cs) sub = (prefix sub (c # cs) \<or> str_includes cs sub)"

text \<open>\<^verbatim>\<open>s.split(c)\<close> for a one-character separator: never the empty array.\<close>

fun str_split :: "char \<Rightarrow> string \<Rightarrow> string list" where
  "str_split c [] = [[]]"
| "str_split c (x # xs) =
     (if x = c then [] # str_split c xs
      else (case str_split c xs of
              [] \<Rightarrow> [[x]]
            | w # ws \<Rightarrow> (x # w) # ws))"

text \<open>\<^verbatim>\<open>parts.join(sep)\<close>.\<close>

fun str_join :: "string \<Rightarrow> string list \<Rightarrow> string" where
  "str_join sep [] = []"
| "str_join sep [x] = x"
| "str_join sep (x # y # ys) = x @ sep @ str_join sep (y # ys)"

text \<open>
  \<^verbatim>\<open>s.trim()\<close> removes white space and line terminators at both ends. Characters
  are bytes here, so the white space is the ASCII one (tab, line feed, vertical tab, form
  feed, carriage return, space).
\<close>

definition is_ws :: "char \<Rightarrow> bool" where
  "is_ws c = (c = CHR 0x09 \<or> c = CHR 0x0A \<or> c = CHR 0x0B \<or> c = CHR 0x0C \<or> c = CHR 0x0D \<or> c = CHR 0x20)"

definition trim :: "string \<Rightarrow> string" where
  "trim s = rev (dropWhile is_ws (rev (dropWhile is_ws s)))"

text \<open>
  \<^verbatim>\<open>parseInt(s)\<close> without a radix: leading white space, an optional sign, an optional
  \<^verbatim>\<open>0x\<close> prefix, then the longest run of digits; \<open>None\<close> is \<^verbatim>\<open>NaN\<close>. The value is
  the exact integer (the rounding of a double beyond \<open>2^53\<close> is left out).
\<close>

definition digit_val :: "nat \<Rightarrow> char \<Rightarrow> nat option" where
  "digit_val radix c =
     (let n = of_char c :: nat;
          v = (if 48 \<le> n \<and> n \<le> 57 then Some (n - 48)
               else if 97 \<le> n \<and> n \<le> 122 then Some (n - 87)
               else if 65 \<le> n \<and> n \<le> 90 then Some (n - 55)
               else None)
      in case v of None \<Rightarrow> None | Some d \<Rightarrow> if d < radix then Some d else None)"

fun leading_digits :: "nat \<Rightarrow> string \<Rightarrow> nat list" where
  "leading_digits radix [] = []"
| "leading_digits radix (c # cs) =
     (case digit_val radix c of None \<Rightarrow> [] | Some d \<Rightarrow> d # leading_digits radix cs)"

definition parseInt :: "string \<Rightarrow> int option" where
  "parseInt str =
     (let s1 = dropWhile is_ws str;
          sign = (case s1 of c # _ \<Rightarrow> if c = CHR ''-'' then (-1::int) else 1 | [] \<Rightarrow> 1);
          s2 = (case s1 of c # cs \<Rightarrow> if c = CHR ''-'' \<or> c = CHR ''+'' then cs else s1 | [] \<Rightarrow> s1);
          hex = (case s2 of a # b # _ \<Rightarrow> a = CHR ''0'' \<and> (b = CHR ''x'' \<or> b = CHR ''X'') | _ \<Rightarrow> False);
          radix = (if hex then 16 else 10);
          s3 = (if hex then drop 2 s2 else s2);
          z = leading_digits radix s3
      in if z = [] then None
         else Some (sign * int (foldl (\<lambda>acc d. acc * radix + d) 0 z)))"

subsection \<open>The outside world: state, transcript, environment\<close>

text \<open>A thrown error is its message.\<close>

type_synonym 'a result = "string + 'a"

text \<open>
  What a spawned child process reports: the \<^verbatim>\<open>error\<close> event (the process could not be
  started), or the \<^verbatim>\<open>close\<close> event with the exit code and the standard output collected
  so far. An exit by signal (code \<^verbatim>\<open>null\<close>) is a non-zero code: both tests of the source,
  \<^verbatim>\<open>code !== 0\<close> and \<^verbatim>\<open>code === 0\<close>, treat it as one. After an \<^verbatim>\<open>error\<close>
  event Node goes on to emit \<^verbatim>\<open>close\<close>, with a negative code. In \<^verbatim>\<open>findLargeFiles\<close>
  and \<^verbatim>\<open>getObjectSize\<close> the handler of \<^verbatim>\<open>error\<close> settles the promise and the
  handler of \<^verbatim>\<open>close\<close> then only settles it again, which does nothing; in
  \<^verbatim>\<open>removeLargeFiles\<close> both handlers act, see there.
\<close>

datatype proc_result = SpawnError string | Exit int string

text \<open>The messages the class logs; the numbers and paths a message carries are its arguments.\<close>

datatype log_msg =
    InitialPushFailed
  | FoundLargeFiles nat
  | LargeFileLine string int
  | PushedAfterRemoving
  | LargeErrorPersists
  | StillProblematic string
  | DetectedLargeFileError
  | CleaningUp
  | CleanupCompleted
  | GitCleanupWarning string
  | RemovingLargeFiles nat
  | FilterRepoSucceeded
  | FilterRepoFailed
  | FilterRepoNotFound
  | StartingFilterBranch
  | FinishedFilterBranch
  | CouldNotDeleteRef string
  | RemovedFilesAndRefs

text \<open>
  How far a call of \<^verbatim>\<open>removeLargeFilesWithFilterBranch\<close> has come: its promise is
  settled, or it waits at one of its \<^verbatim>\<open>await\<close>s for \<^verbatim>\<open>filter-branch\<close>, for
  \<^verbatim>\<open>for-each-ref\<close>, or for the \<^verbatim>\<open>update-ref -d\<close> of one reference, with the references
  that are still to come.
\<close>

datatype fb_task =
    Settled "bool result"
  | AwaitFilterBranch
  | AwaitForEachRef
  | AwaitUpdateRef string "string list"

text \<open>
  One entry of the transcript: the call, its arguments, and what came back. The transcript
  is that of the calls that \<^verbatim>\<open>mirrorRepository\<close> awaits; \<open>LeftRunning\<close> marks the
  place where a fallback rewrite was still running when the promise it belongs to was
  settled by another one.
\<close>

datatype event =
    FsAccess string bool
  | FsMkdir string "string option"
  | FsRm string "string option"
  | SimpleGit string "string option"
  | GitClone string string "string list" "string option"
  | GitRemoveRemote string string "string option"
  | GitAddRemote string string string "string option"
  | GitPush string string string "string list" "string option"
  | GitRaw string "string list" "string result"
  | Spawn string "string list" proc_result
  | Log log_msg
  | LogWarning log_msg
  | ConsoleWarn string
  | LeftRunning string fb_task

record state =
  fs :: "string list"
  trace :: "event list"

text \<open>
  The answers of the outside. \<open>None\<close> for an operation is success, \<open>Some m\<close> the
  message of the error it throws. \<open>path_join\<close> is \<^verbatim>\<open>path.join\<close>, \<open>url_with_auth\<close>
  is \<^verbatim>\<open>new URL(url)\<close> with user name and password set to their
  \<^verbatim>\<open>encodeURIComponent\<close> (\<open>None\<close> when that throws), \<open>match_files\<close> the matches of
  \<^verbatim>\<open>/File (.+?) is \d+\.\d+ MB/g\<close> (none for \<^verbatim>\<open>null\<close>). \<open>race_pick\<close> says, of two
  fallback rewrites that run at the same time, whether the command the first one waits for
  completes next (or the command of the second one).
\<close>

record env =
  path_join :: "string \<Rightarrow> string \<Rightarrow> string"
  url_with_auth :: "string \<Rightarrow> string \<Rightarrow> string \<Rightarrow> string option"
  match_files :: "string \<Rightarrow> string list"
  mkdir_res :: "state \<Rightarrow> string \<Rightarrow> string option"
  rm_res :: "state \<Rightarrow> string \<Rightarrow> string option"
  simple_git_res :: "state \<Rightarrow> string \<Rightarrow> string option"
  clone_res :: "state \<Rightarrow> string \<Rightarrow> string \<Rightarrow> string list \<Rightarrow> string option"
  remove_remote_res :: "state \<Rightarrow> string \<Rightarrow> string \<Rightarrow> string option"
  add_remote_res :: "state \<Rightarrow> string \<Rightarrow> string \<Rightarrow> string \<Rightarrow> string option"
  push_res :: "state \<Rightarrow> string \<Rightarrow> string \<Rightarrow> string \<Rightarrow> string list \<Rightarrow> string option"
  raw_res :: "state \<Rightarrow> string \<Rightarrow> string list \<Rightarrow> string result"
  spawn_res :: "state \<Rightarrow> string \<Rightarrow> string list \<Rightarrow> proc_result"
  race_pick :: "state \<Rightarrow> bool"

definition emit :: "event \<Rightarrow> state \<Rightarrow> state" where
  "emit e s = s\<lparr>trace := trace s @ [e]\<rparr>"

text \<open>\<open>q\<close> is \<open>p\<close> or lies under the directory \<open>p\<close>.\<close>

definition within :: "string \<Rightarrow> string \<Rightarrow> bool" where
  "within p q = (q = p \<or> prefix (p @ ''/'') q)"

text \<open>\<^verbatim>\<open>fs.access(p)\<close>: succeeds when \<open>p\<close> exists.\<close>

definition fs_access :: "string \<Rightarrow> state \<Rightarrow> bool \<times> state" where
  "fs_access p s = (let ok = (p \<in> set (fs s)) in (ok, emit (FsAccess p ok) s))"

text \<open>\<^verbatim>\<open>fs.mkdir(p, { recursive: true })\<close>: on success \<open>p\<close> exists.\<close>

definition fs_mkdir :: "env \<Rightarrow> string \<Rightarrow> state \<Rightarrow> string option \<times> state" where
  "fs_mkdir E p s =
     (let r = mkdir_res E s p;
          s' = (case r of None \<Rightarrow> s\<lparr>fs := (if p \<in> set (fs s) then fs s else p # fs s)\<rparr> | Some _ \<Rightarrow> s)
      in (r, emit (FsMkdir p r) s'))"

text \<open>
  \<^verbatim>\<open>fs.rm(p, { recursive: true, force: true })\<close>: on success \<open>p\<close> and everything under
  it are gone (a path that does not exist is a success too); on failure the directories
  are left as they were.
\<close>

definition fs_rm :: "env \<Rightarrow> string \<Rightarrow> state \<Rightarrow> string option \<times> state" where
  "fs_rm E p s =
     (let r = rm_res E s p;
          s' = (case r of None \<Rightarrow> s\<lparr>fs := filter (\<lambda>q. \<not> within p q) (fs s)\<rparr> | Some _ \<Rightarrow> s)
      in (r, emit (FsRm p r) s'))"

text \<open>\<^verbatim>\<open>simpleGit(baseDir)\<close>: the constructor throws when it cannot use the directory.\<close>

definition simpleGit :: "env \<Rightarrow> string \<Rightarrow> state \<Rightarrow> string option \<times> state" where
  "simpleGit E baseDir s = (let r = simple_git_res E s baseDir in (r, emit (SimpleGit baseDir r) s))"

text \<open>\<^verbatim>\<open>simpleGit().clone(url, path, opts)\<close>: on success the directory \<open>path\<close> exists.\<close>

definition git_clone :: "env \<Rightarrow> string \<Rightarrow> string \<Rightarrow> string list \<Rightarrow> state \<Rightarrow> string option \<times> state" where
  "git_clone E url p opts s =
     (let r = clone_res E s url p opts;
          s' = (case r of None \<Rightarrow> s\<lparr>fs := (if p \<in> set (fs s) then fs s else p # fs s)\<rparr> | Some _ \<Rightarrow> s)
      in (r, emit (GitClone url p opts r) s'))"

definition git_removeRemote :: "env \<Rightarrow> string \<Rightarrow> string \<Rightarrow> state \<Rightarrow> string option \<times> state" where
  "git_removeRemote E cwd name s =
     (let r = remove_remote_res E s cwd name in (r, emit (GitRemoveRemote cwd name r) s))"

definition git_addRemote :: "env \<Rightarrow> string \<Rightarrow> string \<Rightarrow> string \<Rightarrow> state \<Rightarrow> string option \<times> state" where
  "git_addRemote E cwd name url s =
     (let r = add_remote_res E s cwd name url in (r, emit (GitAddRemote cwd name url r) s))"

definition git_push :: "env \<Rightarrow> string \<Rightarrow> string \<Rightarrow> string \<Rightarrow> string list \<Rightarrow> state \<Rightarrow> string option \<times> state" where
  "git_push E cwd remote branch opts s =
     (let r = push_res E s cwd remote branch opts in (r, emit (GitPush cwd remote branch opts r) s))"

definition git_raw :: "env \<Rightarrow> string \<Rightarrow> string list \<Rightarrow> state \<Rightarrow> string result \<times> state" where
  "git_raw E cwd args s = (let r = raw_res E s cwd args in (r, emit (GitRaw cwd args r) s))"

text \<open>\<^verbatim>\<open>spawn('git', args, { cwd })\<close>, up to the event that settles the promise.\<close>

definition spawn_git :: "env \<Rightarrow> string list \<Rightarrow> string \<Rightarrow> state \<Rightarrow> proc_result \<times> state" where
  "spawn_git E args cwd s = (let r = spawn_res E s cwd args in (r, emit (Spawn cwd args r) s))"

subsection \<open>The methods of GitManager\<close>

text \<open>An entry of the scan, \<^verbatim>\<open>{ path, size, hash }\<close>.\<close>

record large_file =
  path_f :: string
  size_f :: int
  hash_f :: string

definition ensureTempDir :: "env \<Rightarrow> string \<Rightarrow> state \<Rightarrow> unit result \<times> state" where
  "ensureTempDir E tempDir s0 =
     (case fs_access tempDir s0 of
        (True, s1) \<Rightarrow> (Inr (), s1)
      | (False, s1) \<Rightarrow>
          (case fs_mkdir E tempDir s1 of
             (None, s2) \<Rightarrow> (Inr (), s2)
           | (Some m, s2) \<Rightarrow> (Inl m, s2)))"

definition addAuthToUrl :: "env \<Rightarrow> string \<Rightarrow> string \<Rightarrow> string \<Rightarrow> string result" where
  "addAuthToUrl E url username password =
     (case url_with_auth E url username password of
        Some u \<Rightarrow> Inr u
      | None \<Rightarrow> Inl (''Invalid URL format: '' @ url))"

text \<open>
  \<^verbatim>\<open>cloneRepository\<close>: the first \<^verbatim>\<open>try\<close> swallows whatever \<^verbatim>\<open>fs.access\<close> or
  \<^verbatim>\<open>fs.rm\<close> throws; \<^verbatim>\<open>addAuthToUrl\<close> is outside any \<^verbatim>\<open>try\<close>.
\<close>

definition cloneRepository ::
  "env \<Rightarrow> string \<Rightarrow> string \<Rightarrow> string \<Rightarrow> string \<Rightarrow> string \<Rightarrow> state \<Rightarrow> string result \<times> state" where
  "cloneRepository E tempDir cloneUrl repoName username appPassword s0 =
     (case ensureTempDir E tempDir s0 of
        (Inl m, s1) \<Rightarrow> (Inl m, s1)
      | (Inr _, s1) \<Rightarrow>
          (let repoPath = path_join E tempDir repoName;
               s2 = (case fs_access repoPath s1 of
                       (True, sa) \<Rightarrow> snd (fs_rm E repoPath sa)
                     | (False, sa) \<Rightarrow> sa)
           in case addAuthToUrl E cloneUrl username appPassword of
                Inl m \<Rightarrow> (Inl m, s2)
              | Inr authenticatedUrl \<Rightarrow>
                  (case git_clone E authenticatedUrl repoPath [''--bare''] s2 of
                     (None, s3) \<Rightarrow> (Inr repoPath, s3)
                   | (Some m, s3) \<Rightarrow>
                       (Inl (''Failed to clone repository '' @ repoName @ '': '' @ m), s3))))"

text \<open>The two texts \<^verbatim>\<open>attemptPush\<close> looks for in the message of a failed push.\<close>

definition is_large_file_error :: "string \<Rightarrow> bool" where
  "is_large_file_error errorMessage =
     (str_includes errorMessage ''exceeds GitHub's file size limit'' \<or>
      str_includes errorMessage ''GH001: Large files detected'')"

text \<open>
  The \<^verbatim>\<open>try\<close> block of \<^verbatim>\<open>attemptPush\<close>: the message of the first call that throws.
  A failing \<^verbatim>\<open>removeRemote\<close> is swallowed.
\<close>

definition attemptPush_try :: "env \<Rightarrow> string \<Rightarrow> string \<Rightarrow> state \<Rightarrow> string option \<times> state" where
  "attemptPush_try E repoPath authenticatedGithubUrl s0 =
     (case simpleGit E repoPath s0 of
        (Some m, s1) \<Rightarrow> (Some m, s1)
      | (None, s1) \<Rightarrow>
          (let s2 = snd (git_removeRemote E repoPath ''github'' s1)
           in case git_addRemote E repoPath ''github'' authenticatedGithubUrl s2 of
                (Some m, s3) \<Rightarrow> (Some m, s3)
              | (None, s3) \<Rightarrow> git_push E repoPath ''github'' ''--mirror'' [''--force''] s3))"

text \<open>\<^verbatim>\<open>attemptPush\<close>: \<open>Inr True\<close> pushed, \<open>Inr False\<close> a large-file error on the first attempt.\<close>

definition attemptPush :: "env \<Rightarrow> string \<Rightarrow> string \<Rightarrow> bool \<Rightarrow> state \<Rightarrow> bool result \<times> state" where
  "attemptPush E repoPath authenticatedGithubUrl isRetry s0 =
     (case attemptPush_try E repoPath authenticatedGithubUrl s0 of
        (None, s1) \<Rightarrow> (Inr True, s1)
      | (Some errorMessage, s1) \<Rightarrow>
          if is_large_file_error errorMessage then
            if isRetry then
              (let s2 = emit (LogWarning LargeErrorPersists) s1;
                   s3 = foldl (\<lambda>s m. emit (LogWarning (StillProblematic m)) s) s2
                          (match_files E errorMessage)
               in (Inl (''Large files still present after cleanup: '' @ errorMessage), s3))
            else (Inr False, emit (Log DetectedLargeFileError) s1)
          else (Inl (''Failed to push to GitHub: '' @ errorMessage), s1))"

definition reflogExpireArgs :: "string list" where
  "reflogExpireArgs = [''reflog'', ''expire'', ''--expire=now'', ''--all'']"

definition gcArgs :: "string list" where
  "gcArgs = [''gc'', ''--prune=now'', ''--aggressive'']"

definition cleanupRepository :: "env \<Rightarrow> string \<Rightarrow> state \<Rightarrow> state" where
  "cleanupRepository E repoPath s0 =
     (case simpleGit E repoPath s0 of
        (Some m, s1) \<Rightarrow> emit (LogWarning (GitCleanupWarning m)) s1
      | (None, s1) \<Rightarrow>
          (let s2 = emit (Log CleaningUp) s1
           in case git_raw E repoPath reflogExpireArgs s2 of
                (Inl m, s3) \<Rightarrow> emit (LogWarning (GitCleanupWarning m)) s3
              | (Inr _, s3) \<Rightarrow>
                  (case git_raw E repoPath gcArgs s3 of
                     (Inl m, s4) \<Rightarrow> emit (LogWarning (GitCleanupWarning m)) s4
                   | (Inr _, s4) \<Rightarrow> emit (Log CleanupCompleted) s4)))"

text \<open>\<^verbatim>\<open>getObjectSize\<close> never rejects: every failure is the size 0.\<close>

definition getObjectSize :: "env \<Rightarrow> string \<Rightarrow> string \<Rightarrow> state \<Rightarrow> int \<times> state" where
  "getObjectSize E repoPath hash s0 =
     (case spawn_git E [''cat-file'', ''-s'', hash] repoPath s0 of
        (Exit code output, s1) \<Rightarrow>
          if code = 0 then
            (case parseInt (trim output) of None \<Rightarrow> (0, s1) | Some n \<Rightarrow> (n, s1))
          else (0, s1)
      | (SpawnError m, s1) \<Rightarrow> (0, s1))"

text \<open>
  The \<^verbatim>\<open>for\<close> loop of \<^verbatim>\<open>findLargeFiles\<close> over the lines of the enumeration: the size
  lookups are started in the order of the lines, and \<^verbatim>\<open>Promise.all\<close> returns their
  results in that order.
\<close>

fun scan_lines :: "env \<Rightarrow> string \<Rightarrow> int \<Rightarrow> string list \<Rightarrow> state \<Rightarrow> large_file option list \<times> state" where
  "scan_lines E repoPath sizeLimit [] s = ([], s)"
| "scan_lines E repoPath sizeLimit (line # rest) s =
     (case str_split CHR '' '' line of
        [] \<Rightarrow> scan_lines E repoPath sizeLimit rest s
      | hash # pathParts \<Rightarrow>
          if length pathParts = 0 then scan_lines E repoPath sizeLimit rest s
          else
            (let filePath = str_join '' '' pathParts;
                 (sz, s1) = getObjectSize E repoPath hash s;
                 r = (if sz \<ge> sizeLimit
                      then Some \<lparr>path_f = filePath, size_f = sz, hash_f = hash\<rparr>
                      else None);
                 (rs, s2) = scan_lines E repoPath sizeLimit rest s1
             in (r # rs, s2)))"

definition findLargeFiles :: "env \<Rightarrow> string \<Rightarrow> int \<Rightarrow> state \<Rightarrow> large_file list result \<times> state" where
  "findLargeFiles E repoPath sizeLimit s0 =
     (case spawn_git E [''rev-list'', ''--objects'', ''--all''] repoPath s0 of
        (SpawnError m, s1) \<Rightarrow> (Inl m, s1)
      | (Exit code output, s1) \<Rightarrow>
          if code \<noteq> 0 then (Inl ''Failed to list git objects'', s1)
          else
            (let lines = filter (\<lambda>line. trim line \<noteq> []) (str_split (CHR 0x0A) output);
                 (results, s2) = scan_lines E repoPath sizeLimit lines s1;
                 validResults = [r. Some r \<leftarrow> results]
             in (Inr validResults, s2)))"

text \<open>The default \<^verbatim>\<open>sizeLimit\<close> of \<^verbatim>\<open>findLargeFiles\<close>, \<^verbatim>\<open>100 * 1024 * 1024\<close>.\<close>

definition default_sizeLimit :: int where
  "default_sizeLimit = 100 * 1024 * 1024"

text \<open>The loop over \<^verbatim>\<open>originalRefs\<close>: a failed deletion is logged and the loop goes on.\<close>

fun delete_refs :: "env \<Rightarrow> string \<Rightarrow> string list \<Rightarrow> state \<Rightarrow> state" where
  "delete_refs E repoPath [] s = s"
| "delete_refs E repoPath (ref # rest) s =
     (case git_raw E repoPath [''update-ref'', ''-d'', ref] s of
        (Inr _, s1) \<Rightarrow> delete_refs E repoPath rest s1
      | (Inl m, s1) \<Rightarrow> delete_refs E repoPath rest (emit (LogWarning (CouldNotDeleteRef ref)) s1))"

definition rmCommand :: "string list \<Rightarrow> string" where
  "rmCommand filePaths =
     str_join '' && ''
       (map (\<lambda>p. ''git rm --cached --ignore-unmatch '' @ [CHR 0x22] @ p @ [CHR 0x22]) filePaths)"

definition filterBranchArgs :: "string list \<Rightarrow> string list" where
  "filterBranchArgs filePaths =
     [''filter-branch'', ''--force'', ''--index-filter'', rmCommand filePaths,
      ''--prune-empty'', ''--tag-name-filter'', ''cat'', ''--'', ''--all'']"

definition forEachRefArgs :: "string list" where
  "forEachRefArgs = [''for-each-ref'', ''--format=%(refname)'', ''refs/original/'']"

text \<open>
  \<^verbatim>\<open>removeLargeFilesWithFilterBranch\<close>: \<^verbatim>\<open>simpleGit(repoPath)\<close> is called before the
  \<^verbatim>\<open>try\<close>, so its error is thrown as it is.
\<close>

definition removeLargeFilesWithFilterBranch ::
  "env \<Rightarrow> string \<Rightarrow> string list \<Rightarrow> state \<Rightarrow> bool result \<times> state" where
  "removeLargeFilesWithFilterBranch E repoPath filePaths s0 =
     (case simpleGit E repoPath s0 of
        (Some m, s1) \<Rightarrow> (Inl m, s1)
      | (None, s1) \<Rightarrow>
          (let s2 = emit (Log StartingFilterBranch) s1
           in case git_raw E repoPath (filterBranchArgs filePaths) s2 of
                (Inl m, s3) \<Rightarrow>
                  (Inl (''Failed to remove large files with filter-branch: '' @ m), s3)
              | (Inr _, s3) \<Rightarrow>
                  (let s4 = emit (Log FinishedFilterBranch) s3
                   in case git_raw E repoPath forEachRefArgs s4 of
                        (Inl m, s5) \<Rightarrow>
                          (Inl (''Failed to remove large files with filter-branch: '' @ m), s5)
                      | (Inr forEachRef, s5) \<Rightarrow>
                          (let originalRefs =
                                 filter (\<lambda>ref. trim ref \<noteq> []) (str_split (CHR 0x0A) forEachRef);
                               s6 = delete_refs E repoPath originalRefs s5
                           in (Inr True, emit (Log RemovedFilesAndRefs) s6)))))"

text \<open>
  The same method, one \<^verbatim>\<open>await\<close> at a time: \<open>fb_start\<close> is what a call does before
  its first \<^verbatim>\<open>await\<close> (the call of \<^verbatim>\<open>git.raw\<close> with \<^verbatim>\<open>filter-branch\<close> is made
  there; the transcript has a call at the place where it completes), \<open>fb_step\<close> what it
  does when the command it waits for completes, up to its next \<^verbatim>\<open>await\<close>.
\<close>

definition fb_start :: "env \<Rightarrow> string \<Rightarrow> state \<Rightarrow> fb_task \<times> state" where
  "fb_start E repoPath s0 =
     (case simpleGit E repoPath s0 of
        (Some m, s1) \<Rightarrow> (Settled (Inl m), s1)
      | (None, s1) \<Rightarrow> (AwaitFilterBranch, emit (Log StartingFilterBranch) s1))"

definition fb_next_ref :: "string list \<Rightarrow> state \<Rightarrow> fb_task \<times> state" where
  "fb_next_ref refs s =
     (case refs of
        [] \<Rightarrow> (Settled (Inr True), emit (Log RemovedFilesAndRefs) s)
      | ref # rest \<Rightarrow> (AwaitUpdateRef ref rest, s))"

fun fb_step :: "env \<Rightarrow> string \<Rightarrow> string list \<Rightarrow> fb_task \<Rightarrow> state \<Rightarrow> fb_task \<times> state" where
  "fb_step E repoPath filePaths (Settled r) s = (Settled r, s)"
| "fb_step E repoPath filePaths AwaitFilterBranch s =
     (case git_raw E repoPath (filterBranchArgs filePaths) s of
        (Inl m, s1) \<Rightarrow>
          (Settled (Inl (''Failed to remove large files with filter-branch: '' @ m)), s1)
      | (Inr _, s1) \<Rightarrow> (AwaitForEachRef, emit (Log FinishedFilterBranch) s1))"
| "fb_step E repoPath filePaths AwaitForEachRef s =
     (case git_raw E repoPath forEachRefArgs s of
        (Inl m, s1) \<Rightarrow>
          (Settled (Inl (''Failed to remove large files with filter-branch: '' @ m)), s1)
      | (Inr forEachRef, s1) \<Rightarrow>
          fb_next_ref (filter (\<lambda>ref. trim ref \<noteq> []) (str_split (CHR 0x0A) forEachRef)) s1)"
| "fb_step E repoPath filePaths (AwaitUpdateRef ref rest) s =
     (case git_raw E repoPath [''update-ref'', ''-d'', ref] s of
        (Inr _, s1) \<Rightarrow> fb_next_ref rest s1
      | (Inl m, s1) \<Rightarrow> fb_next_ref rest (emit (LogWarning (CouldNotDeleteRef ref)) s1))"

text \<open>What a call has before it: which \<^verbatim>\<open>await\<close> it is at, and how many references remain.\<close>

fun fb_rank :: "fb_task \<Rightarrow> nat" where
  "fb_rank (Settled r) = 0"
| "fb_rank (AwaitUpdateRef ref rest) = 1"
| "fb_rank AwaitForEachRef = 2"
| "fb_rank AwaitFilterBranch = 3"

fun fb_left :: "fb_task \<Rightarrow> nat" where
  "fb_left (AwaitUpdateRef ref rest) = length rest"
| "fb_left t = 0"

text \<open>One call run by itself until its promise is settled.\<close>

function (sequential) fb_finish ::
  "env \<Rightarrow> string \<Rightarrow> string list \<Rightarrow> fb_task \<Rightarrow> state \<Rightarrow> bool result \<times> state" where
  "fb_finish E repoPath filePaths (Settled r) s = (r, s)"
| "fb_finish E repoPath filePaths t s =
     (case fb_step E repoPath filePaths t s of
        (t', s') \<Rightarrow> fb_finish E repoPath filePaths t' s')"
  by pat_completeness auto
termination
  by (relation "measures [\<lambda>(E, p, f, t, s). fb_rank t, \<lambda>(E, p, f, t, s). fb_left t]")
     (auto simp: git_raw_def Let_def fb_next_ref_def split: sum.splits list.splits)

text \<open>
  Two calls running at the same time, until the promise of one of them is settled: the
  outcome of that one, the other call as it stands, and the state. When both are settled
  the first one counts: its \<^verbatim>\<open>resolve\<close> or \<^verbatim>\<open>reject\<close> was registered first.
\<close>

function (sequential) fb_race ::
  "env \<Rightarrow> string \<Rightarrow> string list \<Rightarrow> fb_task \<Rightarrow> fb_task \<Rightarrow> state
     \<Rightarrow> bool result \<times> fb_task \<times> state" where
  "fb_race E repoPath filePaths (Settled r) t2 s = (r, t2, s)"
| "fb_race E repoPath filePaths t1 (Settled r) s = (r, t1, s)"
| "fb_race E repoPath filePaths t1 t2 s =
     (if race_pick E s
      then (case fb_step E repoPath filePaths t1 s of
              (t1', s') \<Rightarrow> fb_race E repoPath filePaths t1' t2 s')
      else (case fb_step E repoPath filePaths t2 s of
              (t2', s') \<Rightarrow> fb_race E repoPath filePaths t1 t2' s'))"
  by pat_completeness auto
termination
  by (relation "measures [\<lambda>(E, p, f, t1, t2, s). fb_rank t1, \<lambda>(E, p, f, t1, t2, s). fb_left t1,
                          \<lambda>(E, p, f, t1, t2, s). fb_rank t2, \<lambda>(E, p, f, t1, t2, s). fb_left t2]")
     (auto simp: git_raw_def Let_def fb_next_ref_def split: sum.splits list.splits)

definition leave_running :: "string \<Rightarrow> fb_task \<Rightarrow> state \<Rightarrow> state" where
  "leave_running repoPath t s =
     (case t of Settled r \<Rightarrow> s | _ \<Rightarrow> emit (LeftRunning repoPath t) s)"

text \<open>
  \<^verbatim>\<open>removeLargeFiles\<close>: one \<^verbatim>\<open>--path\<close> argument per entry of the list. When
  \<^verbatim>\<open>git filter-repo\<close> exits with a code other than 0, the handler of \<^verbatim>\<open>close\<close> starts
  the fallback and the promise takes its outcome. When the process cannot be started, the
  handler of \<^verbatim>\<open>error\<close> logs its warning and starts the fallback, and the handler of
  \<^verbatim>\<open>close\<close>, which Node calls next, logs the other warning and starts the fallback a
  second time, each as far as its first \<^verbatim>\<open>await\<close>; the two then run at the same time,
  and the promise takes the outcome of the one that is settled first. The other one goes on
  by itself, awaited by nobody: the transcript marks where it stood and does not follow it
  further. What it still does to the repository reaches the calls that follow through the
  environment, whose answers may depend on the whole transcript.
\<close>

definition filterRepoArgs :: "string list \<Rightarrow> string list" where
  "filterRepoArgs filePaths =
     [''filter-repo'', ''--invert-paths'', ''--force''] @ concat (map (\<lambda>p. [''--path'', p]) filePaths)"

definition removeLargeFiles :: "env \<Rightarrow> string \<Rightarrow> large_file list \<Rightarrow> state \<Rightarrow> bool result \<times> state" where
  "removeLargeFiles E repoPath largeFiles s0 =
     (if length largeFiles = 0 then (Inr True, s0)
      else
        (let s1 = emit (Log (RemovingLargeFiles (length largeFiles))) s0;
             filePaths = map path_f largeFiles
         in case spawn_git E (filterRepoArgs filePaths) repoPath s1 of
              (Exit code _, s2) \<Rightarrow>
                if code = 0 then (Inr True, emit (Log FilterRepoSucceeded) s2)
                else removeLargeFilesWithFilterBranch E repoPath filePaths
                       (emit (LogWarning FilterRepoFailed) s2)
            | (SpawnError m, s2) \<Rightarrow>
                (let (t1, s3) = fb_start E repoPath (emit (LogWarning FilterRepoNotFound) s2);
                     (t2, s4) = fb_start E repoPath (emit (LogWarning FilterRepoFailed) s3);
                     (r, t, s5) = fb_race E repoPath filePaths t1 t2 s4
                 in (r, leave_running repoPath t s5))))"

text \<open>The two log statements of \<^verbatim>\<open>pushToGitHub\<close> that list what the scan found.\<close>

definition logLargeFiles :: "large_file list \<Rightarrow> state \<Rightarrow> state" where
  "logLargeFiles largeFiles s =
     foldl (\<lambda>s file. emit (Log (LargeFileLine (path_f file) (size_f file))) s)
       (emit (Log (FoundLargeFiles (length largeFiles))) s) largeFiles"

text \<open>
  The \<^verbatim>\<open>try\<close> block of \<^verbatim>\<open>pushToGitHub\<close>, entered after the first attempt returned
  \<^verbatim>\<open>false\<close>.
\<close>

definition pushToGitHub_recover :: "env \<Rightarrow> string \<Rightarrow> string \<Rightarrow> state \<Rightarrow> unit result \<times> state" where
  "pushToGitHub_recover E repoPath authenticatedGithubUrl s0 =
     (case findLargeFiles E repoPath default_sizeLimit s0 of
        (Inl m, s1) \<Rightarrow> (Inl m, s1)
      | (Inr largeFiles, s1) \<Rightarrow>
          if length largeFiles > 0 then
            (let s3 = logLargeFiles largeFiles s1
             in case removeLargeFiles E repoPath largeFiles s3 of
                  (Inl m, s4) \<Rightarrow> (Inl m, s4)
                | (Inr _, s4) \<Rightarrow>
                    (let s5 = cleanupRepository E repoPath s4
                     in case attemptPush E repoPath authenticatedGithubUrl True s5 of
                          (Inl m, s6) \<Rightarrow> (Inl m, s6)
                        | (Inr retrySuccess, s6) \<Rightarrow>
                            if retrySuccess then (Inr (), emit (Log PushedAfterRemoving) s6)
                            else (Inl ''Failed to push even after removing large files'', s6)))
          else (Inl ''Push failed but no large files found'', s1))"

definition pushToGitHub ::
  "env \<Rightarrow> string \<Rightarrow> string \<Rightarrow> string \<Rightarrow> string \<Rightarrow> state \<Rightarrow> unit result \<times> state" where
  "pushToGitHub E repoPath githubCloneUrl githubToken githubUsername s0 =
     (case addAuthToUrl E githubCloneUrl githubUsername githubToken of
        Inl m \<Rightarrow> (Inl m, s0)
      | Inr authenticatedGithubUrl \<Rightarrow>
          (case attemptPush E repoPath authenticatedGithubUrl False s0 of
             (Inl m, s1) \<Rightarrow> (Inl m, s1)
           | (Inr success, s1) \<Rightarrow>
               if success then (Inr (), s1)
               else
                 (let s2 = emit (Log InitialPushFailed) s1
                  in case pushToGitHub_recover E repoPath authenticatedGithubUrl s2 of
                       (Inr u, s3) \<Rightarrow> (Inr u, s3)
                     | (Inl m, s3) \<Rightarrow>
                         (Inl (''Failed to push to GitHub. Cleanup attempt failed: '' @ m), s3))))"

record bitbucket_auth =
  bb_username :: string
  bb_password :: string

record github_auth =
  gh_token :: string
  gh_username :: string

text \<open>
  The \<^verbatim>\<open>finally\<close> block of \<^verbatim>\<open>mirrorRepository\<close>; \<^verbatim>\<open>if (repoPath)\<close> is false for
  the empty string.
\<close>

definition mirror_finally :: "env \<Rightarrow> string \<Rightarrow> state \<Rightarrow> state" where
  "mirror_finally E repoPath s =
     (if repoPath \<noteq> [] then
        (case fs_rm E repoPath s of
           (None, s1) \<Rightarrow> s1
         | (Some m, s1) \<Rightarrow>
             emit (ConsoleWarn (''Warning: Failed to cleanup temp directory '' @ repoPath @ '': '' @ m)) s1)
      else s)"

text \<open>
  \<^verbatim>\<open>mirrorRepository\<close>: when \<^verbatim>\<open>cloneRepository\<close> throws, \<^verbatim>\<open>repoPath\<close> is still
  \<^verbatim>\<open>undefined\<close> and the \<^verbatim>\<open>finally\<close> block removes nothing.
\<close>

definition mirrorRepository ::
  "env \<Rightarrow> string \<Rightarrow> string \<Rightarrow> string \<Rightarrow> string \<Rightarrow> bitbucket_auth \<Rightarrow> github_auth \<Rightarrow> state
     \<Rightarrow> bool result \<times> state" where
  "mirrorRepository E tempDir bitbucketCloneUrl githubCloneUrl repoName bitbucketAuth githubAuth s0 =
     (case cloneRepository E tempDir bitbucketCloneUrl repoName
             (bb_username bitbucketAuth) (bb_password bitbucketAuth) s0 of
        (Inl m, s1) \<Rightarrow> (Inl m, s1)
      | (Inr repoPath, s1) \<Rightarrow>
          (case pushToGitHub E repoPath githubCloneUrl (gh_token githubAuth) (gh_username githubAuth) s1 of
             (Inl m, s2) \<Rightarrow> (Inl m, mirror_finally E repoPath s2)
           | (Inr _, s2) \<Rightarrow> (Inr True, mirror_finally E repoPath s2)))"

definition cleanupTempDir :: "env \<Rightarrow> string \<Rightarrow> state \<Rightarrow> unit result \<times> state" where
  "cleanupTempDir E tempDir s0 =
     (case fs_rm E tempDir s0 of
        (None, s1) \<Rightarrow> (Inr (), s1)
      | (Some m, s1) \<Rightarrow>
          (Inr (), emit (ConsoleWarn (''Warning: Failed to cleanup temp directory: '' @ m)) s1))"

subsection \<open>Reading the transcript\<close>

text \<open>
  The three steps the retry protocol is made of, as they show in the transcript: a push is a
  call of \<^verbatim>\<open>git.push\<close>, a scan the spawn of \<^verbatim>\<open>git rev-list --objects --all\<close> (done
  once by every call of \<^verbatim>\<open>findLargeFiles\<close>), a rewrite the spawn of
  \<^verbatim>\<open>git filter-repo\<close> (done once by every call of \<^verbatim>\<open>removeLargeFiles\<close> with a
  list that is not empty, before any fallback).
\<close>

datatype step = PushStep | ScanStep | RewriteStep

fun step_of :: "event \<Rightarrow> step option" where
  "step_of (GitPush cwd remote branch opts r) = Some PushStep"
| "step_of (Spawn cwd args r) =
     (if args = [''rev-list'', ''--objects'', ''--all''] then Some ScanStep
      else if take 1 args = [''filter-repo''] then Some RewriteStep
      else None)"
| "step_of _ = None"

definition steps :: "event list \<Rightarrow> step list" where
  "steps tr = [k. Some k \<leftarrow> map step_of tr]"

text \<open>The entries the transcript gained between two states.\<close>

definition events_since :: "state \<Rightarrow> state \<Rightarrow> event list" where
  "events_since s0 s' = drop (length (trace s0)) (trace s')"

text \<open>
  A remote that rejects every push of the repository with a message of the given kind:
  the constructor and \<^verbatim>\<open>addRemote\<close> work, so the push itself is reached.
\<close>

definition push_always_fails :: "env \<Rightarrow> string \<Rightarrow> string \<Rightarrow> (string \<Rightarrow> bool) \<Rightarrow> bool" where
  "push_always_fails E repoPath url P =
     ((\<forall>s. simple_git_res E s repoPath = None) \<and>
      (\<forall>s. add_remote_res E s repoPath ''github'' url = None) \<and>
      (\<forall>s. \<exists>m. push_res E s repoPath ''github'' ''--mirror'' [''--force''] = Some m \<and> P m))"

text \<open>
  The objects of the enumeration as the loop of \<^verbatim>\<open>findLargeFiles\<close> reads them: of every
  line that has a space, the hash before the first space and the path after it. A line
  without a space (a commit) is skipped.
\<close>

fun line_objects :: "string list \<Rightarrow> (string \<times> string) list" where
  "line_objects [] = []"
| "line_objects (line # rest) =
     (case str_split CHR '' '' line of
        [] \<Rightarrow> line_objects rest
      | hash # pathParts \<Rightarrow>
          if length pathParts = 0 then line_objects rest
          else (hash, str_join '' '' pathParts) # line_objects rest)"

definition enumerated_objects :: "string \<Rightarrow> (string \<times> string) list" where
  "enumerated_objects output =
     line_objects (filter (\<lambda>line. trim line \<noteq> []) (str_split (CHR 0x0A) output))"

text \<open>The size that \<^verbatim>\<open>getObjectSize\<close> makes of what \<^verbatim>\<open>git cat-file -s\<close> reported.\<close>

definition reported_size :: "proc_result \<Rightarrow> int" where
  "reported_size r =
     (case r of
        Exit code out0 \<Rightarrow>
          if code = 0 then (case parseInt (trim out0) of None \<Rightarrow> 0 | Some n \<Rightarrow> n) else 0
      | SpawnError m \<Rightarrow> 0)"

text \<open>
  One size lookup per object, in order, as the transcript shows them, and the records of
  the objects whose lookup reports at least the limit: one record per such object, in
  order, with the path the object was enumerated under.
\<close>

definition lookup_events :: "string \<Rightarrow> (string \<times> string) list \<Rightarrow> proc_result list \<Rightarrow> event list" where
  "lookup_events repoPath objs lookups =
     map (\<lambda>((h, p), r). Spawn repoPath [''cat-file'', ''-s'', h] r) (zip objs lookups)"

definition large_records :: "int \<Rightarrow> (string \<times> string) list \<Rightarrow> proc_result list \<Rightarrow> large_file list" where
  "large_records sizeLimit objs lookups =
     [\<lparr>path_f = p, size_f = reported_size r, hash_f = h\<rparr>.
        ((h, p), r) \<leftarrow> zip objs lookups, sizeLimit \<le> reported_size r]"

text \<open>
  What the loop over \<^verbatim>\<open>originalRefs\<close> writes to the transcript, given the outcome of each
  deletion: one \<^verbatim>\<open>update-ref -d\<close> per reference, followed by a warning when it failed.
\<close>

fun deletion_events :: "string \<Rightarrow> string list \<Rightarrow> string result list \<Rightarrow> event list" where
  "deletion_events repoPath (ref # refs) (r # rs) =
     GitRaw repoPath [''update-ref'', ''-d'', ref] r #
     (case r of Inl m \<Rightarrow> [LogWarning (CouldNotDeleteRef ref)] | Inr out \<Rightarrow> []) @
     deletion_events repoPath refs rs"
| "deletion_events repoPath refs rs = []"

text \<open>
  The references that \<^verbatim>\<open>removeLargeFilesWithFilterBranch\<close> reads off the listing of
  \<^verbatim>\<open>refs/original/\<close>, and the transcript of a call of it that gets as far as the
  deletions: the constructor, \<^verbatim>\<open>filter-branch\<close>, the listing, the deletions, the last
  log line.
\<close>

definition original_refs :: "string \<Rightarrow> string list" where
  "original_refs forEachRef = filter (\<lambda>ref. trim ref \<noteq> []) (str_split (CHR 0x0A) forEachRef)"

definition fallback_events ::
  "string \<Rightarrow> string list \<Rightarrow> string \<Rightarrow> string \<Rightarrow> string result list \<Rightarrow> event list" where
  "fallback_events repoPath filePaths out0 forEachRef outcomes =
     [SimpleGit repoPath None, Log StartingFilterBranch,
      GitRaw repoPath (filterBranchArgs filePaths) (Inr out0),
      Log FinishedFilterBranch,
      GitRaw repoPath forEachRefArgs (Inr forEachRef)] @
     deletion_events repoPath (original_refs forEachRef) outcomes @
     [Log RemovedFilesAndRefs]"

text \<open>
  What \<^verbatim>\<open>cleanupRepository\<close> writes to the transcript, given what the constructor,
  \<^verbatim>\<open>reflog expire\<close> and \<^verbatim>\<open>gc\<close> answer: the first of them that fails is followed by
  the warning and by nothing else, so \<^verbatim>\<open>gc\<close> appears only after an expiry that succeeded.
\<close>

fun cleanup_events :: "string \<Rightarrow> string option \<Rightarrow> string result \<Rightarrow> string result \<Rightarrow> event list" where
  "cleanup_events repoPath (Some m) expiry gc =
     [SimpleGit repoPath (Some m), LogWarning (GitCleanupWarning m)]"
| "cleanup_events repoPath None (Inl m) gc =
     [SimpleGit repoPath None, Log CleaningUp,
      GitRaw repoPath reflogExpireArgs (Inl m), LogWarning (GitCleanupWarning m)]"
| "cleanup_events repoPath None (Inr out1) (Inl m) =
     [SimpleGit repoPath None, Log CleaningUp,
      GitRaw repoPath reflogExpireArgs (Inr out1),
      GitRaw repoPath gcArgs (Inl m), LogWarning (GitCleanupWarning m)]"
| "cleanup_events repoPath None (Inr out1) (Inr out2) =
     [SimpleGit repoPath None, Log CleaningUp,
      GitRaw repoPath reflogExpireArgs (Inr out1),
      GitRaw repoPath gcArgs (Inr out2), Log CleanupCompleted]"

text \<open>What \<^verbatim>\<open>pushToGitHub\<close> makes of the outcome of the second \<^verbatim>\<open>attemptPush\<close>.\<close>

definition retry_outcome :: "bool result \<Rightarrow> unit result" where
  "retry_outcome r =
     (case r of
        Inl m \<Rightarrow> Inl m
      | Inr retrySuccess \<Rightarrow>
          if retrySuccess then Inr () else Inl ''Failed to push even after removing large files'')"

subsection \<open>Concrete environments\<close>

text \<open>An outside where every call succeeds and every process prints nothing.\<close>

definition quiet_env :: env where
  "quiet_env =
     \<lparr>path_join = (\<lambda>dir name. dir @ ''/'' @ name),
      url_with_auth = (\<lambda>url username password. Some (username @ '':'' @ password @ ''@'' @ url)),
      match_files = (\<lambda>m. []),
      mkdir_res = (\<lambda>s p. None),
      rm_res = (\<lambda>s p. None),
      simple_git_res = (\<lambda>s p. None),
      clone_res = (\<lambda>s url p opts. None),
      remove_remote_res = (\<lambda>s cwd name. None),
      add_remote_res = (\<lambda>s cwd name url. None),
      push_res = (\<lambda>s cwd remote branch opts. None),
      raw_res = (\<lambda>s cwd args. Inr []),
      spawn_res = (\<lambda>s cwd args. Exit 0 []),
      race_pick = (\<lambda>s. True)\<rparr>"

definition init_state :: state where
  "init_state = \<lparr>fs = [], trace = []\<rparr>"

definition demo_bitbucket_auth :: bitbucket_auth where
  "demo_bitbucket_auth = \<lparr>bb_username = ''alice'', bb_password = ''app-secret''\<rparr>"

definition demo_github_auth :: github_auth where
  "demo_github_auth = \<lparr>gh_token = ''ghp_token'', gh_username = ''alice''\<rparr>"

text \<open>Every push is rejected with the given message.\<close>

definition push_fails_env :: "string \<Rightarrow> env" where
  "push_fails_env msg = quiet_env\<lparr>push_res := (\<lambda>s cwd remote branch opts. Some msg)\<rparr>"

text \<open>
  A repository with a 150 MiB blob at \<^verbatim>\<open>assets/video.mp4\<close> and a remote that goes on
  rejecting the push after the rewrite.
\<close>

definition large_repo_env :: env where
  "large_repo_env = quiet_env
     \<lparr>match_files := (\<lambda>m. if m = ''remote: error: GH001: Large files detected. File assets/video.mp4 is 150.00 MB''
                           then [''File assets/video.mp4 is 150.00 MB''] else []),
      push_res := (\<lambda>s cwd remote branch opts.
         Some ''remote: error: GH001: Large files detected. File assets/video.mp4 is 150.00 MB''),
      spawn_res := (\<lambda>s cwd args.
         if args = [''rev-list'', ''--objects'', ''--all'']
         then Exit 0 (''c0ffee'' @ [CHR 0x0A] @ ''7ee5 assets'' @ [CHR 0x0A] @
                      ''b10b assets/video.mp4'' @ [CHR 0x0A])
         else if args = [''cat-file'', ''-s'', ''b10b''] then Exit 0 (''157286400'' @ [CHR 0x0A])
         else if take 1 args = [''cat-file''] then Exit 0 (''120'' @ [CHR 0x0A])
         else Exit 0 [])\<rparr>"

text \<open>A push rejected with a large-file message although the repository holds no large object.\<close>

definition no_large_found_env :: env where
  "no_large_found_env = quiet_env
     \<lparr>push_res := (\<lambda>s cwd remote branch opts.
         Some ''remote: error: File data.bin exceeds GitHub's file size limit of 100.00 MB''),
      spawn_res := (\<lambda>s cwd args.
         if args = [''rev-list'', ''--objects'', ''--all'']
         then Exit 0 (''c0ffee'' @ [CHR 0x0A] @ ''f11e README.md'' @ [CHR 0x0A])
         else if take 1 args = [''cat-file''] then Exit 0 (''2048'' @ [CHR 0x0A])
         else Exit 0 [])\<rparr>"

text \<open>Two versions of one file, both of 200 MiB: two objects under the same path.\<close>

definition dup_path_env :: env where
  "dup_path_env = quiet_env
     \<lparr>spawn_res := (\<lambda>s cwd args.
         if args = [''rev-list'', ''--objects'', ''--all'']
         then Exit 0 (''c0ffee'' @ [CHR 0x0A] @ ''aaa1 big.bin'' @ [CHR 0x0A] @
                      ''bbb2 big.bin'' @ [CHR 0x0A])
         else if take 1 args = [''cat-file''] then Exit 0 (''209715200'' @ [CHR 0x0A])
         else Exit 0 [])\<rparr>"

text \<open>Two objects of 200 MiB; the size lookup of the first one fails.\<close>

definition lookup_fails_env :: env where
  "lookup_fails_env = quiet_env
     \<lparr>spawn_res := (\<lambda>s cwd args.
         if args = [''rev-list'', ''--objects'', ''--all'']
         then Exit 0 (''aaa1 big.bin'' @ [CHR 0x0A] @ ''bbb2 other.bin'' @ [CHR 0x0A])
         else if args = [''cat-file'', ''-s'', ''aaa1''] then Exit 128 []
         else if take 1 args = [''cat-file''] then Exit 0 (''209715200'' @ [CHR 0x0A])
         else Exit 0 [])\<rparr>"

text \<open>
  \<^verbatim>\<open>git filter-repo\<close> is not installed; the fallback leaves two backup references, and the
  deletion of the second one fails.
\<close>

definition fallback_env :: env where
  "fallback_env = quiet_env
     \<lparr>raw_res := (\<lambda>s cwd args.
         if args = forEachRefArgs
         then Inr (''refs/original/refs/heads/main'' @ [CHR 0x0A] @
                   ''refs/original/refs/tags/v1'' @ [CHR 0x0A])
         else if args = [''update-ref'', ''-d'', ''refs/original/refs/tags/v1'']
         then Inl ''error: cannot lock ref''
         else Inr []),
      spawn_res := (\<lambda>s cwd args.
         if args = [''rev-list'', ''--objects'', ''--all'']
         then Exit 0 (''b10b assets/video.mp4'' @ [CHR 0x0A])
         else if take 1 args = [''cat-file''] then Exit 0 (''157286400'' @ [CHR 0x0A])
         else if take 1 args = [''filter-repo''] then Exit 1 []
         else Exit 0 [])\<rparr>"

text \<open>A \<^verbatim>\<open>git clone\<close> that refuses a destination that exists.\<close>

definition stale_dir_env :: env where
  "stale_dir_env = quiet_env
     \<lparr>clone_res := (\<lambda>s url p opts.
         if p \<in> set (fs s)
         then Some ''fatal: destination path already exists and is not an empty directory.''
         else None)\<rparr>"

text \<open>A file system that refuses every removal.\<close>

definition rm_fails_env :: env where
  "rm_fails_env = quiet_env\<lparr>rm_res := (\<lambda>s p. Some ''EBUSY: resource busy or locked'')\<rparr>"

text \<open>
  A \<^verbatim>\<open>git clone\<close> that refuses a destination that exists, on a file system that
  refuses to remove it.
\<close>

definition stale_rm_fails_env :: env where
  "stale_rm_fails_env = stale_dir_env
     \<lparr>rm_res := (\<lambda>s p. Some ''EBUSY: resource busy or locked, rmdir 'temp/demo' '')\<rparr>"

text \<open>
  A repository with a 150 MiB blob that \<^verbatim>\<open>git filter-repo\<close> removes; afterwards
  \<^verbatim>\<open>git reflog expire\<close> fails.
\<close>

definition reflog_fails_env :: env where
  "reflog_fails_env = quiet_env
     \<lparr>raw_res := (\<lambda>s cwd args.
         if args = reflogExpireArgs then Inl ''error: cannot lock ref HEAD'' else Inr []),
      spawn_res := (\<lambda>s cwd args.
         if args = [''rev-list'', ''--objects'', ''--all'']
         then Exit 0 (''b10b assets/video.mp4'' @ [CHR 0x0A])
         else if take 1 args = [''cat-file''] then Exit 0 (''157286400'' @ [CHR 0x0A])
         else Exit 0 [])\<rparr>"

text \<open>
  The process of \<^verbatim>\<open>git filter-repo\<close> cannot be started; \<^verbatim>\<open>filter-branch\<close> leaves one
  backup reference. Of the two fallback rewrites, the second one is the first to get its
  \<^verbatim>\<open>filter-branch\<close> done, and the first one gets everything else done before it.
\<close>

definition no_git_env :: env where
  "no_git_env = quiet_env
     \<lparr>raw_res := (\<lambda>s cwd args.
         if args = forEachRefArgs then Inr (''refs/original/refs/heads/main'' @ [CHR 0x0A])
         else Inr []),
      spawn_res := (\<lambda>s cwd args.
         if take 1 args = [''filter-repo''] then SpawnError ''spawn git EAGAIN'' else Exit 0 []),
      race_pick := (\<lambda>s. length (trace s) \<noteq> 8)\<rparr>"

section \<open>Properties\<close>

subsection \<open>Substrings\<close>

lemma str_includes_iff: "str_includes s sub \<longleftrightarrow> (\<exists>pre post. s = pre @ sub @ post)"
proof (induction s)
  case Nil
  then show ?case by auto
next
  case (Cons c cs)
  show ?case
  proof
    assume "str_includes (c # cs) sub"
    then consider "prefix sub (c # cs)" | "str_includes cs sub" by auto
    then show "\<exists>pre post. c # cs = pre @ sub @ post"
    proof cases
      case 1
      then obtain post where "c # cs = sub @ post" by (auto simp: prefix_def)
      then have "c # cs = [] @ sub @ post" by simp
      then show ?thesis by blast
    next
      case 2
      with Cons.IH obtain pre post where "cs = pre @ sub @ post" by blast
      then have "c # cs = (c # pre) @ sub @ post" by simp
      then show ?thesis by blast
    qed
  next
    assume "\<exists>pre post. c # cs = pre @ sub @ post"
    then obtain pre post where e: "c # cs = pre @ sub @ post" by blast
    show "str_includes (c # cs) sub"
    proof (cases pre)
      case Nil
      with e have "prefix sub (c # cs)" by (simp add: prefix_def)
      then show ?thesis by simp
    next
      case (Cons a pre')
      with e have "cs = pre' @ sub @ post" by simp
      with Cons.IH have "str_includes cs sub" by blast
      then show ?thesis by simp
    qed
  qed
qed

subsection \<open>What each method adds to the transcript\<close>

lemma trace_emit: "trace (emit e s) = trace s @ [e]"
  by (simp add: emit_def)

lemma fs_emit: "fs (emit e s) = fs s"
  by (simp add: emit_def)

lemma steps_Nil: "steps [] = []"
  by (simp add: steps_def)

lemma steps_append: "steps (a @ b) = steps a @ steps b"
  by (simp add: steps_def)

lemma steps_single: "steps [e] = (case step_of e of None \<Rightarrow> [] | Some k \<Rightarrow> [k])"
  by (simp add: steps_def split: option.splits)

lemma steps_emit: "steps (trace (emit e s)) = steps (trace s) @ (case step_of e of None \<Rightarrow> [] | Some k \<Rightarrow> [k])"
  by (simp add: trace_emit steps_append steps_single)

lemmas prim_defs = fs_access_def fs_mkdir_def fs_rm_def simpleGit_def git_clone_def
  git_removeRemote_def git_addRemote_def git_push_def git_raw_def spawn_git_def Let_def

lemma steps_getObjectSize:
  "steps (trace (snd (getObjectSize E repoPath h s))) = steps (trace s)"
  by (simp add: getObjectSize_def prim_defs steps_emit split: proc_result.splits option.splits)

lemma steps_scan_lines:
  "steps (trace (snd (scan_lines E repoPath lim ls s))) = steps (trace s)"
proof (induction ls arbitrary: s)
  case Nil
  then show ?case by simp
next
  case (Cons l ls)
  show ?case
    by (simp add: Cons.IH steps_getObjectSize split: list.splits prod.splits)
       (metis Cons.IH steps_getObjectSize snd_conv)
qed

lemma steps_findLargeFiles:
  "steps (trace (snd (findLargeFiles E repoPath lim s))) = steps (trace s) @ [ScanStep]"
  apply (simp add: findLargeFiles_def prim_defs split: proc_result.splits prod.splits)
  apply (intro conjI allI impI)
    apply (simp_all add: steps_emit)
  apply (metis steps_scan_lines snd_conv steps_emit step_of.simps(2) option.simps(5))
  done


lemma steps_delete_refs:
  "steps (trace (snd (x, delete_refs E repoPath refs s))) = steps (trace s)"
  by (induction refs arbitrary: s)
     (simp_all add: prim_defs steps_emit split: sum.splits)

lemma steps_filterBranch:
  "steps (trace (snd (removeLargeFilesWithFilterBranch E repoPath fps s))) = steps (trace s)"
  using steps_delete_refs [of undefined E repoPath]
  by (simp add: removeLargeFilesWithFilterBranch_def prim_defs steps_emit
           split: option.splits sum.splits)

lemma step_of_filterRepo:
  "step_of (Spawn cwd (filterRepoArgs fps) r) = Some RewriteStep"
  by (simp add: filterRepoArgs_def)

lemma steps_fb_start:
  "steps (trace (snd (fb_start E repoPath s))) = steps (trace s)"
  by (simp add: fb_start_def prim_defs steps_emit split: option.splits)

lemma steps_fb_step:
  "steps (trace (snd (fb_step E repoPath fps t s))) = steps (trace s)"
  by (cases t)
     (simp_all add: git_raw_def Let_def fb_next_ref_def steps_emit split: sum.splits list.splits)

lemma steps_fb_race:
  "steps (trace (snd (snd (fb_race E repoPath fps t1 t2 s)))) = steps (trace s)"
  by (induction E repoPath fps t1 t2 s rule: fb_race.induct)
     (simp_all del: fb_step.simps split: prod.splits, (metis steps_fb_step snd_conv)+)

lemma steps_leave_running:
  "steps (trace (leave_running repoPath t s)) = steps (trace s)"
  by (simp add: leave_running_def steps_emit split: fb_task.splits)

lemma steps_two_fallbacks:
  "steps (trace (snd (case fb_start E repoPath s of
                        (t1, s3) \<Rightarrow>
                          case fb_start E repoPath (emit (LogWarning w) s3) of
                            (t2, s4) \<Rightarrow>
                              case fb_race E repoPath fps t1 t2 s4 of
                                (r, t, s5) \<Rightarrow> (r, leave_running repoPath t s5)))) =
   steps (trace s)"
proof -
  obtain t1 s3 where a: "fb_start E repoPath s = (t1, s3)"
    by (cases "fb_start E repoPath s")
  obtain t2 s4 where b: "fb_start E repoPath (emit (LogWarning w) s3) = (t2, s4)"
    by (cases "fb_start E repoPath (emit (LogWarning w) s3)")
  obtain res t s5 where c: "fb_race E repoPath fps t1 t2 s4 = (res, t, s5)"
    by (cases "fb_race E repoPath fps t1 t2 s4") auto
  have st3: "steps (trace s3) = steps (trace s)"
    using steps_fb_start [of E repoPath s] a by simp
  have st4: "steps (trace s4) = steps (trace s3)"
    using steps_fb_start [of E repoPath "emit (LogWarning w) s3"] b by (simp add: steps_emit)
  have st5: "steps (trace s5) = steps (trace s4)"
    using steps_fb_race [of E repoPath fps t1 t2 s4] c by simp
  show ?thesis
    by (simp add: a b c steps_leave_running st5 st4 st3)
qed

lemma steps_removeLargeFiles:
  "files \<noteq> [] \<Longrightarrow>
   steps (trace (snd (removeLargeFiles E repoPath files s))) = steps (trace s) @ [RewriteStep]"
  by (simp add: removeLargeFiles_def prim_defs steps_filterBranch steps_two_fallbacks steps_emit
           step_of_filterRepo
           del: step_of.simps(2) split: proc_result.splits)

lemma steps_cleanupRepository:
  "steps (trace (cleanupRepository E repoPath s)) = steps (trace s)"
  by (simp add: cleanupRepository_def prim_defs steps_emit split: option.splits sum.splits)

lemma steps_ensureTempDir:
  "steps (trace (snd (ensureTempDir E tempDir s))) = steps (trace s)"
  by (simp add: ensureTempDir_def prim_defs steps_emit split: option.splits bool.splits)

lemma steps_cloneRepository:
  "steps (trace (snd (cloneRepository E tempDir url name u p s))) = steps (trace s)"
proof -
  obtain r s1 where e: "ensureTempDir E tempDir s = (r, s1)"
    by (cases "ensureTempDir E tempDir s")
  with steps_ensureTempDir [of E tempDir s] have s1: "steps (trace s1) = steps (trace s)"
    by simp
  show ?thesis
    by (cases r)
       (simp_all add: cloneRepository_def e s1 prim_defs steps_emit
          split: option.splits sum.splits bool.splits)
qed

lemma steps_mirror_finally:
  "steps (trace (mirror_finally E repoPath s)) = steps (trace s)"
  by (simp add: mirror_finally_def prim_defs steps_emit split: option.splits)

lemma steps_foldl_log:
  "steps (trace (foldl (\<lambda>s x. emit (Log (f x)) s) s xs)) = steps (trace s)"
  by (induction xs arbitrary: s) (simp_all add: steps_emit)

lemma steps_logLargeFiles:
  "steps (trace (logLargeFiles files s)) = steps (trace s)"
  by (simp add: logLargeFiles_def steps_foldl_log steps_emit)

lemma steps_foldl_warn:
  "steps (trace (foldl (\<lambda>s x. emit (LogWarning (f x)) s) s xs)) = steps (trace s)"
  by (induction xs arbitrary: s) (simp_all add: steps_emit)

lemma trace_foldl_emit:
  "trace (foldl (\<lambda>s x. emit (g x) s) s xs) = trace s @ map g xs"
  by (induction xs arbitrary: s) (simp_all add: trace_emit)

lemma trace_mirror_finally:
  "\<exists>X. trace (mirror_finally E repoPath s) = trace s @ X"
  by (simp add: mirror_finally_def prim_defs trace_emit split: option.splits)

lemma attemptPush_try_fails:
  assumes "push_always_fails E repoPath url P"
  shows "\<exists>m s'. attemptPush_try E repoPath url s = (Some m, s') \<and> P m \<and>
           steps (trace s') = steps (trace s) @ [PushStep]"
proof -
  from assms have g: "\<And>s. simple_git_res E s repoPath = None"
    and a: "\<And>s. add_remote_res E s repoPath ''github'' url = None"
    and p: "\<And>s. \<exists>m. push_res E s repoPath ''github'' ''--mirror'' [''--force''] = Some m \<and> P m"
    by (auto simp: push_always_fails_def)
  show ?thesis
    using p by (simp add: attemptPush_try_def prim_defs g a steps_emit)
qed

lemma steps_attemptPush_retry_large:
  assumes "push_always_fails E repoPath url is_large_file_error"
  shows "\<exists>m s'. attemptPush E repoPath url True s =
            (Inl (''Large files still present after cleanup: '' @ m), s') \<and>
          is_large_file_error m \<and> steps (trace s') = steps (trace s) @ [PushStep] \<and>
          (\<forall>f \<in> set (match_files E m). LogWarning (StillProblematic f) \<in> set (trace s'))"
proof -
  obtain m s1 where t: "attemptPush_try E repoPath url s = (Some m, s1)"
    and m: "is_large_file_error m"
    and st: "steps (trace s1) = steps (trace s) @ [PushStep]"
    using attemptPush_try_fails [OF assms] by blast
  define s' where "s' = foldl (\<lambda>s f. emit (LogWarning (StillProblematic f)) s)
                         (emit (LogWarning LargeErrorPersists) s1) (match_files E m)"
  have r: "attemptPush E repoPath url True s =
             (Inl (''Large files still present after cleanup: '' @ m), s')"
    by (simp add: attemptPush_def t m s'_def)
  have a: "steps (trace s') = steps (trace s) @ [PushStep]"
    by (simp add: s'_def steps_foldl_warn steps_emit st)
  have b: "\<forall>f \<in> set (match_files E m). LogWarning (StillProblematic f) \<in> set (trace s')"
    by (simp add: s'_def trace_foldl_emit)
  from r m a b show ?thesis by blast
qed

lemma steps_attemptPush_first_large:
  assumes "push_always_fails E repoPath url is_large_file_error"
  shows "\<exists>s'. attemptPush E repoPath url False s = (Inr False, s') \<and>
          steps (trace s') = steps (trace s) @ [PushStep]"
proof -
  obtain m s1 where t: "attemptPush_try E repoPath url s = (Some m, s1)"
    and m: "is_large_file_error m"
    and st: "steps (trace s1) = steps (trace s) @ [PushStep]"
    using attemptPush_try_fails [OF assms] by blast
  show ?thesis
    by (simp add: attemptPush_def t m steps_emit st)
qed

lemma steps_attemptPush_other:
  assumes "push_always_fails E repoPath url (\<lambda>m. \<not> is_large_file_error m)"
  shows "\<exists>m s'. attemptPush E repoPath url isRetry s = (Inl (''Failed to push to GitHub: '' @ m), s') \<and>
          \<not> is_large_file_error m \<and> steps (trace s') = steps (trace s) @ [PushStep]"
proof -
  obtain m s1 where t: "attemptPush_try E repoPath url s = (Some m, s1)"
    and m: "\<not> is_large_file_error m"
    and st: "steps (trace s1) = steps (trace s) @ [PushStep]"
    using attemptPush_try_fails [OF assms] by blast
  show ?thesis
    by (simp add: attemptPush_def t m st)
qed

lemma steps_attemptPush_try_ext:
  "\<exists>rest. steps (trace (snd (attemptPush_try E repoPath url s))) = steps (trace s) @ rest"
  by (simp add: attemptPush_try_def prim_defs steps_emit split: option.splits)

lemma steps_attemptPush_ext:
  "\<exists>rest. steps (trace (snd (attemptPush E repoPath url isRetry s))) = steps (trace s) @ rest"
proof -
  obtain r s1 where t: "attemptPush_try E repoPath url s = (r, s1)"
    by (cases "attemptPush_try E repoPath url s")
  obtain rest where "steps (trace s1) = steps (trace s) @ rest"
    using steps_attemptPush_try_ext [of E repoPath url s] t by auto
  then show ?thesis
    by (simp add: attemptPush_def t steps_emit steps_foldl_warn split: option.splits)
qed

lemma steps_recover_ext:
  "\<exists>rest. steps (trace (snd (pushToGitHub_recover E repoPath url s))) =
            steps (trace s) @ ScanStep # rest"
proof -
  obtain r s1 where f: "findLargeFiles E repoPath default_sizeLimit s = (r, s1)"
    by (cases "findLargeFiles E repoPath default_sizeLimit s")
  have st1: "steps (trace s1) = steps (trace s) @ [ScanStep]"
    using steps_findLargeFiles [of E repoPath default_sizeLimit s] f by simp
  show ?thesis
  proof (cases r)
    case (Inl m)
    then show ?thesis by (simp add: pushToGitHub_recover_def f st1)
  next
    case (Inr files)
    show ?thesis
    proof (cases "files = []")
      case True
      with Inr show ?thesis by (simp add: pushToGitHub_recover_def f st1)
    next
      case False
      define s3 where "s3 = logLargeFiles files s1"
      have st3: "steps (trace s3) = steps (trace s1)"
        by (simp add: s3_def steps_logLargeFiles)
      obtain r4 s4 where rm: "removeLargeFiles E repoPath files s3 = (r4, s4)"
        by (cases "removeLargeFiles E repoPath files s3")
      have st4: "steps (trace s4) = steps (trace s3) @ [RewriteStep]"
        using steps_removeLargeFiles [OF False, of E repoPath s3] rm by simp
      define s5 where "s5 = cleanupRepository E repoPath s4"
      have st5: "steps (trace s5) = steps (trace s4)"
        by (simp add: s5_def steps_cleanupRepository)
      obtain r6 s6 where ap: "attemptPush E repoPath url True s5 = (r6, s6)"
        by (cases "attemptPush E repoPath url True s5")
      obtain rest where st6: "steps (trace s6) = steps (trace s5) @ rest"
        using steps_attemptPush_ext [of E repoPath url True s5] ap by auto
      show ?thesis
        using Inr False
        by (simp add: pushToGitHub_recover_def f s3_def [symmetric] rm s5_def [symmetric] ap
              st6 st5 st4 st3 st1 steps_emit split: sum.splits)
    qed
  qed
qed

lemmas model_defs = mirrorRepository_def mirror_finally_def cloneRepository_def ensureTempDir_def
  addAuthToUrl_def pushToGitHub_def pushToGitHub_recover_def attemptPush_def attemptPush_try_def
  findLargeFiles_def getObjectSize_def removeLargeFiles_def removeLargeFilesWithFilterBranch_def
  cleanupRepository_def filterRepoArgs_def rmCommand_def default_sizeLimit_def
  reflogExpireArgs_def gcArgs_def filterBranchArgs_def forEachRefArgs_def logLargeFiles_def
  is_large_file_error_def trim_def is_ws_def parseInt_def digit_val_def within_def
  emit_def init_state_def

lemmas demo_defs = quiet_env_def demo_bitbucket_auth_def demo_github_auth_def

subsection \<open>The retry protocol of mirrorRepository\<close>

text \<open>
  C1. The clone succeeds; every push is rejected with a message that carries one of the two
  large-file texts, before and after the rewrite; the scan finds large files and the
  rewrite succeeds. Then \<^verbatim>\<open>mirrorRepository\<close> runs push, scan, rewrite, push, in this
  order and nothing more of the three (two pushes, one scan, one rewrite, no third push), and
  throws the error that carries the message of the second push, after logging as a warning
  every file that the message names.
\<close>

theorem mirror_at_most_one_retry:
  assumes clone: "cloneRepository E tempDir bitbucketCloneUrl repoName
                    (bb_username bitbucketAuth) (bb_password bitbucketAuth) s0 = (Inr repoPath, s1)"
    and url: "addAuthToUrl E githubCloneUrl (gh_username githubAuth) (gh_token githubAuth) = Inr url"
    and push: "push_always_fails E repoPath url is_large_file_error"
    and scan: "\<forall>s. \<exists>files. fst (findLargeFiles E repoPath default_sizeLimit s) = Inr files \<and> files \<noteq> []"
    and rewrite: "\<forall>s files. files \<noteq> [] \<longrightarrow> (\<exists>b. fst (removeLargeFiles E repoPath files s) = Inr b)"
  shows "\<exists>m. is_large_file_error m \<and>
           fst (mirrorRepository E tempDir bitbucketCloneUrl githubCloneUrl repoName
                  bitbucketAuth githubAuth s0) =
             Inl (''Failed to push to GitHub. Cleanup attempt failed: '' @
                  ''Large files still present after cleanup: '' @ m) \<and>
           steps (trace (snd (mirrorRepository E tempDir bitbucketCloneUrl githubCloneUrl repoName
                  bitbucketAuth githubAuth s0))) =
             steps (trace s0) @ [PushStep, ScanStep, RewriteStep, PushStep] \<and>
           (\<forall>f \<in> set (match_files E m).
              LogWarning (StillProblematic f) \<in>
                set (trace (snd (mirrorRepository E tempDir bitbucketCloneUrl githubCloneUrl repoName
                  bitbucketAuth githubAuth s0))))"
proof -
  have st1: "steps (trace s1) = steps (trace s0)"
    using steps_cloneRepository [of E tempDir bitbucketCloneUrl repoName
            "bb_username bitbucketAuth" "bb_password bitbucketAuth" s0] clone by simp
  obtain s2 where p1: "attemptPush E repoPath url False s1 = (Inr False, s2)"
    and st2: "steps (trace s2) = steps (trace s1) @ [PushStep]"
    using steps_attemptPush_first_large [OF push] by blast
  define s3 where "s3 = emit (Log InitialPushFailed) s2"
  have st3: "steps (trace s3) = steps (trace s2)"
    by (simp add: s3_def steps_emit)
  obtain files s4 where f: "findLargeFiles E repoPath default_sizeLimit s3 = (Inr files, s4)"
    and ne: "files \<noteq> []"
    using scan by (metis fst_conv surj_pair)
  have st4: "steps (trace s4) = steps (trace s3) @ [ScanStep]"
    using steps_findLargeFiles [of E repoPath default_sizeLimit s3] f by simp
  define s5 where "s5 = logLargeFiles files s4"
  have st5: "steps (trace s5) = steps (trace s4)"
    by (simp add: s5_def steps_logLargeFiles)
  obtain b s6 where r: "removeLargeFiles E repoPath files s5 = (Inr b, s6)"
    using rewrite ne by (metis fst_conv surj_pair)
  have st6: "steps (trace s6) = steps (trace s5) @ [RewriteStep]"
    using steps_removeLargeFiles [OF ne, of E repoPath s5] r by simp
  define s7 where "s7 = cleanupRepository E repoPath s6"
  have st7: "steps (trace s7) = steps (trace s6)"
    by (simp add: s7_def steps_cleanupRepository)
  obtain m s8 where p2: "attemptPush E repoPath url True s7 =
        (Inl (''Large files still present after cleanup: '' @ m), s8)"
    and m: "is_large_file_error m"
    and st8: "steps (trace s8) = steps (trace s7) @ [PushStep]"
    and w8: "\<forall>f \<in> set (match_files E m). LogWarning (StillProblematic f) \<in> set (trace s8)"
    using steps_attemptPush_retry_large [OF push] by blast
  have rec: "pushToGitHub_recover E repoPath url s3 =
        (Inl (''Large files still present after cleanup: '' @ m), s8)"
    using ne by (simp add: pushToGitHub_recover_def f r p2 s5_def [symmetric] s7_def [symmetric])
  have pg: "pushToGitHub E repoPath githubCloneUrl (gh_token githubAuth) (gh_username githubAuth) s1 =
        (Inl (''Failed to push to GitHub. Cleanup attempt failed: '' @
              ''Large files still present after cleanup: '' @ m), s8)"
    by (simp add: pushToGitHub_def url p1 rec s3_def [symmetric])
  have mr: "mirrorRepository E tempDir bitbucketCloneUrl githubCloneUrl repoName
              bitbucketAuth githubAuth s0 =
        (Inl (''Failed to push to GitHub. Cleanup attempt failed: '' @
              ''Large files still present after cleanup: '' @ m), mirror_finally E repoPath s8)"
    by (simp add: mirrorRepository_def clone pg)
  have st: "steps (trace (mirror_finally E repoPath s8)) =
          steps (trace s0) @ [PushStep, ScanStep, RewriteStep, PushStep]"
    by (simp add: steps_mirror_finally st8 st7 st6 st5 st4 st3 st2 st1)
  obtain X where "trace (mirror_finally E repoPath s8) = trace s8 @ X"
    using trace_mirror_finally by blast
  with w8 have "\<forall>f \<in> set (match_files E m).
      LogWarning (StillProblematic f) \<in> set (trace (mirror_finally E repoPath s8))"
    by simp
  with m mr st show ?thesis by auto
qed

theorem mirror_at_most_one_retry_witness:
  "fst (mirrorRepository large_repo_env ''temp'' ''https://bitbucket.org/w/demo2.git''
          ''https://github.com/alice/demo2.git'' ''demo2'' demo_bitbucket_auth demo_github_auth
          init_state) =
     Inl (''Failed to push to GitHub. Cleanup attempt failed: '' @
          ''Large files still present after cleanup: '' @
          ''remote: error: GH001: Large files detected. File assets/video.mp4 is 150.00 MB'') \<and>
   steps (trace (snd (mirrorRepository large_repo_env ''temp'' ''https://bitbucket.org/w/demo2.git''
          ''https://github.com/alice/demo2.git'' ''demo2'' demo_bitbucket_auth demo_github_auth
          init_state))) =
     [PushStep, ScanStep, RewriteStep, PushStep] \<and>
   LogWarning (StillProblematic ''File assets/video.mp4 is 150.00 MB'') \<in>
     set (trace (snd (mirrorRepository large_repo_env ''temp'' ''https://bitbucket.org/w/demo2.git''
          ''https://github.com/alice/demo2.git'' ''demo2'' demo_bitbucket_auth demo_github_auth
          init_state)))"
proof -
  let ?E = large_repo_env
  have clone: "cloneRepository ?E ''temp'' ''https://bitbucket.org/w/demo2.git'' ''demo2''
                 (bb_username demo_bitbucket_auth) (bb_password demo_bitbucket_auth) init_state =
               (Inr ''temp/demo2'',
                snd (cloneRepository ?E ''temp'' ''https://bitbucket.org/w/demo2.git'' ''demo2''
                 (bb_username demo_bitbucket_auth) (bb_password demo_bitbucket_auth) init_state))"
    by (simp add: model_defs prim_defs demo_defs large_repo_env_def)
  have url: "addAuthToUrl ?E ''https://github.com/alice/demo2.git'' (gh_username demo_github_auth)
               (gh_token demo_github_auth) = Inr ''alice:ghp_token@https://github.com/alice/demo2.git''"
    by (simp add: model_defs demo_defs large_repo_env_def)
  have push: "push_always_fails ?E ''temp/demo2''
                ''alice:ghp_token@https://github.com/alice/demo2.git'' is_large_file_error"
    by (simp add: push_always_fails_def demo_defs large_repo_env_def is_large_file_error_def)
  have scan: "\<forall>s. \<exists>files. fst (findLargeFiles ?E ''temp/demo2'' default_sizeLimit s) = Inr files \<and>
                files \<noteq> []"
    by (simp add: model_defs prim_defs demo_defs large_repo_env_def)
  have rewrite: "\<forall>s files. files \<noteq> [] \<longrightarrow>
                   (\<exists>b. fst (removeLargeFiles ?E ''temp/demo2'' files s) = Inr b)"
    by (auto simp add: model_defs prim_defs demo_defs large_repo_env_def)
  have res: "fst (mirrorRepository large_repo_env ''temp'' ''https://bitbucket.org/w/demo2.git''
          ''https://github.com/alice/demo2.git'' ''demo2'' demo_bitbucket_auth demo_github_auth
          init_state) =
     Inl (''Failed to push to GitHub. Cleanup attempt failed: '' @
          ''Large files still present after cleanup: '' @
          ''remote: error: GH001: Large files detected. File assets/video.mp4 is 150.00 MB'')"
    by (simp add: model_defs prim_defs demo_defs large_repo_env_def)
  have warn: "LogWarning (StillProblematic ''File assets/video.mp4 is 150.00 MB'') \<in>
     set (trace (snd (mirrorRepository large_repo_env ''temp'' ''https://bitbucket.org/w/demo2.git''
          ''https://github.com/alice/demo2.git'' ''demo2'' demo_bitbucket_auth demo_github_auth
          init_state)))"
    by (simp add: model_defs prim_defs demo_defs large_repo_env_def)
  have "steps (trace init_state) = []"
    by (simp add: init_state_def steps_def)
  with mirror_at_most_one_retry [OF clone url push scan rewrite] res warn show ?thesis
    by auto
qed

text \<open>
  C6. The clone succeeds, the push is rejected with a large-file message, and the scan
  returns the empty list. Then \<^verbatim>\<open>mirrorRepository\<close> throws, and of the three steps the
  transcript holds one push and one scan: no rewrite, no second push.
\<close>

theorem mirror_false_signature_guard:
  assumes clone: "cloneRepository E tempDir bitbucketCloneUrl repoName
                    (bb_username bitbucketAuth) (bb_password bitbucketAuth) s0 = (Inr repoPath, s1)"
    and url: "addAuthToUrl E githubCloneUrl (gh_username githubAuth) (gh_token githubAuth) = Inr url"
    and push: "push_always_fails E repoPath url is_large_file_error"
    and scan: "\<forall>s. fst (findLargeFiles E repoPath default_sizeLimit s) = Inr []"
  shows "fst (mirrorRepository E tempDir bitbucketCloneUrl githubCloneUrl repoName
                  bitbucketAuth githubAuth s0) =
           Inl (''Failed to push to GitHub. Cleanup attempt failed: '' @
                ''Push failed but no large files found'') \<and>
         steps (trace (snd (mirrorRepository E tempDir bitbucketCloneUrl githubCloneUrl repoName
                  bitbucketAuth githubAuth s0))) =
           steps (trace s0) @ [PushStep, ScanStep]"
proof -
  have st1: "steps (trace s1) = steps (trace s0)"
    using steps_cloneRepository [of E tempDir bitbucketCloneUrl repoName
            "bb_username bitbucketAuth" "bb_password bitbucketAuth" s0] clone by simp
  obtain s2 where p1: "attemptPush E repoPath url False s1 = (Inr False, s2)"
    and st2: "steps (trace s2) = steps (trace s1) @ [PushStep]"
    using steps_attemptPush_first_large [OF push] by blast
  define s3 where "s3 = emit (Log InitialPushFailed) s2"
  have st3: "steps (trace s3) = steps (trace s2)"
    by (simp add: s3_def steps_emit)
  obtain s4 where f: "findLargeFiles E repoPath default_sizeLimit s3 = (Inr [], s4)"
    using scan by (metis fst_conv surj_pair)
  have st4: "steps (trace s4) = steps (trace s3) @ [ScanStep]"
    using steps_findLargeFiles [of E repoPath default_sizeLimit s3] f by simp
  have rec: "pushToGitHub_recover E repoPath url s3 =
        (Inl ''Push failed but no large files found'', s4)"
    by (simp add: pushToGitHub_recover_def f)
  have pg: "pushToGitHub E repoPath githubCloneUrl (gh_token githubAuth) (gh_username githubAuth) s1 =
        (Inl (''Failed to push to GitHub. Cleanup attempt failed: '' @
              ''Push failed but no large files found''), s4)"
    by (simp add: pushToGitHub_def url p1 rec s3_def [symmetric])
  have mr: "mirrorRepository E tempDir bitbucketCloneUrl githubCloneUrl repoName
              bitbucketAuth githubAuth s0 =
        (Inl (''Failed to push to GitHub. Cleanup attempt failed: '' @
              ''Push failed but no large files found''), mirror_finally E repoPath s4)"
    by (simp add: mirrorRepository_def clone pg)
  have "steps (trace (mirror_finally E repoPath s4)) = steps (trace s0) @ [PushStep, ScanStep]"
    by (simp add: steps_mirror_finally st4 st3 st2 st1)
  with mr show ?thesis by simp
qed

theorem mirror_false_signature_guard_witness:
  "fst (mirrorRepository no_large_found_env ''temp'' ''https://bitbucket.org/w/demo.git''
          ''https://github.com/alice/demo.git'' ''demo'' demo_bitbucket_auth demo_github_auth
          init_state) =
     Inl ''Failed to push to GitHub. Cleanup attempt failed: Push failed but no large files found'' \<and>
   steps (trace (snd (mirrorRepository no_large_found_env ''temp'' ''https://bitbucket.org/w/demo.git''
          ''https://github.com/alice/demo.git'' ''demo'' demo_bitbucket_auth demo_github_auth
          init_state))) =
     [PushStep, ScanStep]"
proof -
  let ?E = no_large_found_env
  have clone: "cloneRepository ?E ''temp'' ''https://bitbucket.org/w/demo.git'' ''demo''
                 (bb_username demo_bitbucket_auth) (bb_password demo_bitbucket_auth) init_state =
               (Inr ''temp/demo'',
                snd (cloneRepository ?E ''temp'' ''https://bitbucket.org/w/demo.git'' ''demo''
                 (bb_username demo_bitbucket_auth) (bb_password demo_bitbucket_auth) init_state))"
    by (simp add: model_defs prim_defs demo_defs no_large_found_env_def)
  have url: "addAuthToUrl ?E ''https://github.com/alice/demo.git'' (gh_username demo_github_auth)
               (gh_token demo_github_auth) = Inr ''alice:ghp_token@https://github.com/alice/demo.git''"
    by (simp add: model_defs demo_defs no_large_found_env_def)
  have push: "push_always_fails ?E ''temp/demo''
                ''alice:ghp_token@https://github.com/alice/demo.git'' is_large_file_error"
    by (simp add: push_always_fails_def demo_defs no_large_found_env_def is_large_file_error_def)
  have scan: "\<forall>s. fst (findLargeFiles ?E ''temp/demo'' default_sizeLimit s) = Inr []"
    by (simp add: model_defs prim_defs demo_defs no_large_found_env_def)
  have "steps (trace init_state) = []"
    by (simp add: init_state_def steps_def)
  with mirror_false_signature_guard [OF clone url push scan] show ?thesis
    by simp
qed

text \<open>
  C7. The clone succeeds and the push is rejected with a message that carries neither of
  the two large-file texts. Then \<^verbatim>\<open>mirrorRepository\<close> throws the push error at once:
  of the three steps the transcript holds the one push, no scan, no rewrite, no second push.
\<close>

theorem mirror_non_recoverable:
  assumes clone: "cloneRepository E tempDir bitbucketCloneUrl repoName
                    (bb_username bitbucketAuth) (bb_password bitbucketAuth) s0 = (Inr repoPath, s1)"
    and url: "addAuthToUrl E githubCloneUrl (gh_username githubAuth) (gh_token githubAuth) = Inr url"
    and push: "push_always_fails E repoPath url (\<lambda>m. \<not> is_large_file_error m)"
  shows "\<exists>m. \<not> is_large_file_error m \<and>
           fst (mirrorRepository E tempDir bitbucketCloneUrl githubCloneUrl repoName
                  bitbucketAuth githubAuth s0) = Inl (''Failed to push to GitHub: '' @ m) \<and>
           steps (trace (snd (mirrorRepository E tempDir bitbucketCloneUrl githubCloneUrl repoName
                  bitbucketAuth githubAuth s0))) = steps (trace s0) @ [PushStep]"
proof -
  have st1: "steps (trace s1) = steps (trace s0)"
    using steps_cloneRepository [of E tempDir bitbucketCloneUrl repoName
            "bb_username bitbucketAuth" "bb_password bitbucketAuth" s0] clone by simp
  obtain m s2 where p1: "attemptPush E repoPath url False s1 =
        (Inl (''Failed to push to GitHub: '' @ m), s2)"
    and m: "\<not> is_large_file_error m"
    and st2: "steps (trace s2) = steps (trace s1) @ [PushStep]"
    using steps_attemptPush_other [OF push] by blast
  have mr: "mirrorRepository E tempDir bitbucketCloneUrl githubCloneUrl repoName
              bitbucketAuth githubAuth s0 =
        (Inl (''Failed to push to GitHub: '' @ m), mirror_finally E repoPath s2)"
    by (simp add: mirrorRepository_def clone pushToGitHub_def url p1)
  have "steps (trace (mirror_finally E repoPath s2)) = steps (trace s0) @ [PushStep]"
    by (simp add: steps_mirror_finally st2 st1)
  with m mr show ?thesis by auto
qed

theorem mirror_non_recoverable_witness:
  "fst (mirrorRepository (push_fails_env ''fatal: Authentication failed'') ''temp''
          ''https://bitbucket.org/w/demo.git'' ''https://github.com/alice/demo.git'' ''demo''
          demo_bitbucket_auth demo_github_auth init_state) =
     Inl ''Failed to push to GitHub: fatal: Authentication failed'' \<and>
   steps (trace (snd (mirrorRepository (push_fails_env ''fatal: Authentication failed'') ''temp''
          ''https://bitbucket.org/w/demo.git'' ''https://github.com/alice/demo.git'' ''demo''
          demo_bitbucket_auth demo_github_auth init_state))) =
     [PushStep]"
proof -
  let ?E = "push_fails_env ''fatal: Authentication failed''"
  have clone: "cloneRepository ?E ''temp'' ''https://bitbucket.org/w/demo.git'' ''demo''
                 (bb_username demo_bitbucket_auth) (bb_password demo_bitbucket_auth) init_state =
               (Inr ''temp/demo'',
                snd (cloneRepository ?E ''temp'' ''https://bitbucket.org/w/demo.git'' ''demo''
                 (bb_username demo_bitbucket_auth) (bb_password demo_bitbucket_auth) init_state))"
    by (simp add: model_defs prim_defs demo_defs push_fails_env_def)
  have url: "addAuthToUrl ?E ''https://github.com/alice/demo.git'' (gh_username demo_github_auth)
               (gh_token demo_github_auth) = Inr ''alice:ghp_token@https://github.com/alice/demo.git''"
    by (simp add: model_defs demo_defs push_fails_env_def)
  have push: "push_always_fails ?E ''temp/demo''
                ''alice:ghp_token@https://github.com/alice/demo.git'' (\<lambda>m. \<not> is_large_file_error m)"
    by (simp add: push_always_fails_def demo_defs push_fails_env_def is_large_file_error_def)
  have res: "fst (mirrorRepository ?E ''temp''
          ''https://bitbucket.org/w/demo.git'' ''https://github.com/alice/demo.git'' ''demo''
          demo_bitbucket_auth demo_github_auth init_state) =
     Inl ''Failed to push to GitHub: fatal: Authentication failed''"
    by (simp add: model_defs prim_defs demo_defs push_fails_env_def)
  have "steps (trace init_state) = []"
    by (simp add: init_state_def steps_def)
  with mirror_non_recoverable [OF clone url push] res show ?thesis
    by auto
qed

subsection \<open>The workspace\<close>

text \<open>What a completed \<^verbatim>\<open>fs.rm\<close> leaves of the transcript and of the directories.\<close>

lemma mirror_finally_cases:
  assumes "repoPath \<noteq> []"
  shows "(case rm_res E s repoPath of
            None \<Rightarrow>
              trace (mirror_finally E repoPath s) = trace s @ [FsRm repoPath None] \<and>
              (\<forall>q \<in> set (fs (mirror_finally E repoPath s)). \<not> within repoPath q)
          | Some m \<Rightarrow>
              trace (mirror_finally E repoPath s) =
                trace s @ [FsRm repoPath (Some m),
                           ConsoleWarn (''Warning: Failed to cleanup temp directory '' @ repoPath @
                                        '': '' @ m)])"
  using assms
  by (simp add: mirror_finally_def prim_defs trace_emit fs_emit split: option.splits)

text \<open>
  C2. Whenever \<^verbatim>\<open>cloneRepository\<close> has returned a path (one that \<^verbatim>\<open>if (repoPath)\<close>
  accepts), whatever the outcome of \<^verbatim>\<open>pushToGitHub\<close>: \<^verbatim>\<open>mirrorRepository\<close> returns
  that outcome (\<^verbatim>\<open>true\<close>, or the same error), and the last thing it does is
  \<^verbatim>\<open>fs.rm\<close> of the path. When the removal succeeds, neither the path nor anything under
  it exists afterwards; when it fails, a warning is written and the outcome stays.
  \<^verbatim>\<open>cleanupTempDir\<close> never throws either: it removes the directory or writes a warning.
\<close>

theorem mirrorRepository_cleanup:
  assumes clone: "cloneRepository E tempDir bitbucketCloneUrl repoName
                    (bb_username bitbucketAuth) (bb_password bitbucketAuth) s0 = (Inr repoPath, s1)"
    and path: "repoPath \<noteq> []"
    and push: "pushToGitHub E repoPath githubCloneUrl (gh_token githubAuth)
                 (gh_username githubAuth) s1 = (outcome, s2)"
  shows "fst (mirrorRepository E tempDir bitbucketCloneUrl githubCloneUrl repoName
                bitbucketAuth githubAuth s0) =
           (case outcome of Inl m \<Rightarrow> Inl m | Inr u \<Rightarrow> Inr True) \<and>
         (case rm_res E s2 repoPath of
            None \<Rightarrow>
              trace (snd (mirrorRepository E tempDir bitbucketCloneUrl githubCloneUrl repoName
                            bitbucketAuth githubAuth s0)) = trace s2 @ [FsRm repoPath None] \<and>
              (\<forall>q \<in> set (fs (snd (mirrorRepository E tempDir bitbucketCloneUrl githubCloneUrl
                                     repoName bitbucketAuth githubAuth s0))). \<not> within repoPath q)
          | Some m \<Rightarrow>
              trace (snd (mirrorRepository E tempDir bitbucketCloneUrl githubCloneUrl repoName
                            bitbucketAuth githubAuth s0)) =
                trace s2 @ [FsRm repoPath (Some m),
                            ConsoleWarn (''Warning: Failed to cleanup temp directory '' @ repoPath @
                                         '': '' @ m)]) \<and>
         fst (cleanupTempDir E tempDir s) = Inr () \<and>
         (case rm_res E s tempDir of
            None \<Rightarrow>
              trace (snd (cleanupTempDir E tempDir s)) = trace s @ [FsRm tempDir None] \<and>
              (\<forall>q \<in> set (fs (snd (cleanupTempDir E tempDir s))). \<not> within tempDir q)
          | Some m \<Rightarrow>
              trace (snd (cleanupTempDir E tempDir s)) =
                trace s @ [FsRm tempDir (Some m),
                           ConsoleWarn (''Warning: Failed to cleanup temp directory: '' @ m)])"
proof -
  have mr: "mirrorRepository E tempDir bitbucketCloneUrl githubCloneUrl repoName
              bitbucketAuth githubAuth s0 =
            ((case outcome of Inl m \<Rightarrow> Inl m | Inr u \<Rightarrow> Inr True), mirror_finally E repoPath s2)"
    by (simp add: mirrorRepository_def clone push split: sum.splits)
  have ct: "fst (cleanupTempDir E tempDir s) = Inr () \<and>
         (case rm_res E s tempDir of
            None \<Rightarrow>
              trace (snd (cleanupTempDir E tempDir s)) = trace s @ [FsRm tempDir None] \<and>
              (\<forall>q \<in> set (fs (snd (cleanupTempDir E tempDir s))). \<not> within tempDir q)
          | Some m \<Rightarrow>
              trace (snd (cleanupTempDir E tempDir s)) =
                trace s @ [FsRm tempDir (Some m),
                           ConsoleWarn (''Warning: Failed to cleanup temp directory: '' @ m)])"
    by (simp add: cleanupTempDir_def prim_defs trace_emit fs_emit split: option.splits)
  from mr mirror_finally_cases [OF path, of E s2] ct show ?thesis
    by (cases "rm_res E s2 repoPath") simp_all
qed

theorem mirrorRepository_cleanup_witness:
  "mirrorRepository quiet_env ''temp'' ''https://bitbucket.org/w/demo.git''
     ''https://github.com/alice/demo.git'' ''demo'' demo_bitbucket_auth demo_github_auth init_state =
     (Inr True,
      \<lparr>fs = [''temp''],
       trace = [FsAccess ''temp'' False, FsMkdir ''temp'' None, FsAccess ''temp/demo'' False,
                GitClone ''alice:app-secret@https://bitbucket.org/w/demo.git'' ''temp/demo''
                  [''--bare''] None,
                SimpleGit ''temp/demo'' None,
                GitRemoveRemote ''temp/demo'' ''github'' None,
                GitAddRemote ''temp/demo'' ''github''
                  ''alice:ghp_token@https://github.com/alice/demo.git'' None,
                GitPush ''temp/demo'' ''github'' ''--mirror'' [''--force''] None,
                FsRm ''temp/demo'' None]\<rparr>) \<and>
   mirrorRepository rm_fails_env ''temp'' ''https://bitbucket.org/w/demo.git''
     ''https://github.com/alice/demo.git'' ''demo'' demo_bitbucket_auth demo_github_auth init_state =
     (Inr True,
      \<lparr>fs = [''temp/demo'', ''temp''],
       trace = [FsAccess ''temp'' False, FsMkdir ''temp'' None, FsAccess ''temp/demo'' False,
                GitClone ''alice:app-secret@https://bitbucket.org/w/demo.git'' ''temp/demo''
                  [''--bare''] None,
                SimpleGit ''temp/demo'' None,
                GitRemoveRemote ''temp/demo'' ''github'' None,
                GitAddRemote ''temp/demo'' ''github''
                  ''alice:ghp_token@https://github.com/alice/demo.git'' None,
                GitPush ''temp/demo'' ''github'' ''--mirror'' [''--force''] None,
                FsRm ''temp/demo'' (Some ''EBUSY: resource busy or locked''),
                ConsoleWarn ''Warning: Failed to cleanup temp directory temp/demo: EBUSY: resource busy or locked'']\<rparr>)"
proof -
  let ?E = rm_fails_env
  let ?s1 = "snd (cloneRepository ?E ''temp'' ''https://bitbucket.org/w/demo.git'' ''demo''
                 (bb_username demo_bitbucket_auth) (bb_password demo_bitbucket_auth) init_state)"
  have clone: "cloneRepository ?E ''temp'' ''https://bitbucket.org/w/demo.git'' ''demo''
                 (bb_username demo_bitbucket_auth) (bb_password demo_bitbucket_auth) init_state =
               (Inr ''temp/demo'', ?s1)"
    by (simp add: model_defs prim_defs demo_defs rm_fails_env_def)
  have path: "''temp/demo'' \<noteq> []"
    by simp
  have push: "pushToGitHub ?E ''temp/demo'' ''https://github.com/alice/demo.git''
                (gh_token demo_github_auth) (gh_username demo_github_auth) ?s1 =
              (Inr (), snd (pushToGitHub ?E ''temp/demo'' ''https://github.com/alice/demo.git''
                (gh_token demo_github_auth) (gh_username demo_github_auth) ?s1))"
    by (simp add: model_defs prim_defs demo_defs rm_fails_env_def)
  have ev1: "mirrorRepository quiet_env ''temp'' ''https://bitbucket.org/w/demo.git''
     ''https://github.com/alice/demo.git'' ''demo'' demo_bitbucket_auth demo_github_auth init_state =
     (Inr True,
      \<lparr>fs = [''temp''],
       trace = [FsAccess ''temp'' False, FsMkdir ''temp'' None, FsAccess ''temp/demo'' False,
                GitClone ''alice:app-secret@https://bitbucket.org/w/demo.git'' ''temp/demo''
                  [''--bare''] None,
                SimpleGit ''temp/demo'' None,
                GitRemoveRemote ''temp/demo'' ''github'' None,
                GitAddRemote ''temp/demo'' ''github''
                  ''alice:ghp_token@https://github.com/alice/demo.git'' None,
                GitPush ''temp/demo'' ''github'' ''--mirror'' [''--force''] None,
                FsRm ''temp/demo'' None]\<rparr>)"
    by (simp add: model_defs prim_defs demo_defs)
  have ev2: "mirrorRepository rm_fails_env ''temp'' ''https://bitbucket.org/w/demo.git''
     ''https://github.com/alice/demo.git'' ''demo'' demo_bitbucket_auth demo_github_auth init_state =
     (Inr True,
      \<lparr>fs = [''temp/demo'', ''temp''],
       trace = [FsAccess ''temp'' False, FsMkdir ''temp'' None, FsAccess ''temp/demo'' False,
                GitClone ''alice:app-secret@https://bitbucket.org/w/demo.git'' ''temp/demo''
                  [''--bare''] None,
                SimpleGit ''temp/demo'' None,
                GitRemoveRemote ''temp/demo'' ''github'' None,
                GitAddRemote ''temp/demo'' ''github''
                  ''alice:ghp_token@https://github.com/alice/demo.git'' None,
                GitPush ''temp/demo'' ''github'' ''--mirror'' [''--force''] None,
                FsRm ''temp/demo'' (Some ''EBUSY: resource busy or locked''),
                ConsoleWarn ''Warning: Failed to cleanup temp directory temp/demo: EBUSY: resource busy or locked'']\<rparr>)"
    by (simp add: model_defs prim_defs demo_defs rm_fails_env_def)
  from mirrorRepository_cleanup [OF clone path push] ev1 ev2 show ?thesis
    by simp
qed

lemma ensureTempDir_ok:
  assumes "\<forall>s. mkdir_res E s tempDir = None"
  shows "\<exists>s' pre. ensureTempDir E tempDir s = (Inr (), s') \<and> trace s' = trace s @ pre \<and>
           set (fs s) \<subseteq> set (fs s')"
  using assms
  by (auto simp: ensureTempDir_def prim_defs trace_emit fs_emit split: bool.splits)

lemma cloneRepository_fresh:
  assumes rm_ok: "\<forall>s. rm_res E s (path_join E tempDir repoName) = None"
    and mkdir_ok: "\<forall>s. mkdir_res E s tempDir = None"
    and url: "url_with_auth E cloneUrl username appPassword = Some authUrl"
    and clone_ok: "\<forall>s. path_join E tempDir repoName \<notin> set (fs s) \<longrightarrow>
                     clone_res E s authUrl (path_join E tempDir repoName) [''--bare''] = None"
  shows "\<exists>s' pre. cloneRepository E tempDir cloneUrl repoName username appPassword s =
              (Inr (path_join E tempDir repoName), s') \<and>
            path_join E tempDir repoName \<in> set (fs s') \<and>
            trace s' = trace s @ pre @
              (if path_join E tempDir repoName \<in> set (fs s)
               then [FsAccess (path_join E tempDir repoName) True,
                     FsRm (path_join E tempDir repoName) None]
               else []) @
              [GitClone authUrl (path_join E tempDir repoName) [''--bare''] None]"
proof -
  let ?p = "path_join E tempDir repoName"
  obtain s1 pre where e: "ensureTempDir E tempDir s = (Inr (), s1)"
    and t1: "trace s1 = trace s @ pre" and f1: "set (fs s) \<subseteq> set (fs s1)"
    using ensureTempDir_ok [OF mkdir_ok] by blast
  define s2 where "s2 = (case fs_access ?p s1 of
                       (True, sa) \<Rightarrow> snd (fs_rm E ?p sa)
                     | (False, sa) \<Rightarrow> sa)"
  have n2: "?p \<notin> set (fs s2)"
    using rm_ok by (simp add: s2_def prim_defs fs_emit within_def split: bool.splits)
  have t2: "trace s2 = trace s1 @ (if ?p \<in> set (fs s1) then [FsAccess ?p True, FsRm ?p None]
                                    else [FsAccess ?p False])"
    using rm_ok by (simp add: s2_def prim_defs trace_emit split: bool.splits)
  have c: "clone_res E s2 authUrl ?p [''--bare''] = None"
    using clone_ok n2 by blast
  have r: "cloneRepository E tempDir cloneUrl repoName username appPassword s =
             (Inr ?p, snd (git_clone E authUrl ?p [''--bare''] s2))"
    by (simp add: cloneRepository_def e s2_def [symmetric] addAuthToUrl_def url git_clone_def c Let_def)
  have t3: "trace (snd (git_clone E authUrl ?p [''--bare''] s2)) =
              trace s2 @ [GitClone authUrl ?p [''--bare''] None]"
    by (simp add: git_clone_def c Let_def trace_emit)
  have f3: "?p \<in> set (fs (snd (git_clone E authUrl ?p [''--bare''] s2)))"
    by (simp add: git_clone_def c Let_def fs_emit)
  show ?thesis
  proof (cases "?p \<in> set (fs s)")
    case True
    with f1 have "?p \<in> set (fs s1)" by blast
    with t2 t1 t3 True have "trace (snd (git_clone E authUrl ?p [''--bare''] s2)) =
        trace s @ pre @
          (if ?p \<in> set (fs s) then [FsAccess ?p True, FsRm ?p None] else []) @
          [GitClone authUrl ?p [''--bare''] None]"
      by simp
    with r f3 show ?thesis by blast
  next
    case False
    define pre2 where "pre2 = pre @ (if ?p \<in> set (fs s1) then [FsAccess ?p True, FsRm ?p None]
                                    else [FsAccess ?p False])"
    from t2 t1 t3 False have "trace (snd (git_clone E authUrl ?p [''--bare''] s2)) =
        trace s @ pre2 @
          (if ?p \<in> set (fs s) then [FsAccess ?p True, FsRm ?p None] else []) @
          [GitClone authUrl ?p [''--bare''] None]"
      by (simp add: pre2_def)
    with r f3 show ?thesis by blast
  qed
qed

text \<open>
  C9, amended. The removal of the workspace path and the creation of the base directory
  work, the URL is well formed, and \<^verbatim>\<open>git clone\<close> succeeds whenever its destination
  does not exist. Then \<^verbatim>\<open>cloneRepository\<close> succeeds twice in a row with nothing in
  between: the first call leaves the path on disk, and the second one finds it, removes it
  and only then clones.
\<close>

theorem cloneRepository_twice:
  assumes rm_ok: "\<forall>s. rm_res E s (path_join E tempDir repoName) = None"
    and mkdir_ok: "\<forall>s. mkdir_res E s tempDir = None"
    and url: "url_with_auth E cloneUrl username appPassword = Some authUrl"
    and clone_ok: "\<forall>s. path_join E tempDir repoName \<notin> set (fs s) \<longrightarrow>
                     clone_res E s authUrl (path_join E tempDir repoName) [''--bare''] = None"
  shows "\<exists>s1 s2 pre.
           cloneRepository E tempDir cloneUrl repoName username appPassword s0 =
             (Inr (path_join E tempDir repoName), s1) \<and>
           path_join E tempDir repoName \<in> set (fs s1) \<and>
           cloneRepository E tempDir cloneUrl repoName username appPassword s1 =
             (Inr (path_join E tempDir repoName), s2) \<and>
           trace s2 = trace s1 @ pre @
             [FsAccess (path_join E tempDir repoName) True,
              FsRm (path_join E tempDir repoName) None,
              GitClone authUrl (path_join E tempDir repoName) [''--bare''] None]"
proof -
  let ?p = "path_join E tempDir repoName"
  obtain s1 where c1: "cloneRepository E tempDir cloneUrl repoName username appPassword s0 =
              (Inr ?p, s1)" and f1: "?p \<in> set (fs s1)"
    using cloneRepository_fresh [OF rm_ok mkdir_ok url clone_ok, of s0] by blast
  obtain s2 pre where c2: "cloneRepository E tempDir cloneUrl repoName username appPassword s1 =
              (Inr ?p, s2)"
    and t2: "trace s2 = trace s1 @ pre @
              (if ?p \<in> set (fs s1) then [FsAccess ?p True, FsRm ?p None] else []) @
              [GitClone authUrl ?p [''--bare''] None]"
    using cloneRepository_fresh [OF rm_ok mkdir_ok url clone_ok, of s1] by blast
  from t2 f1 have "trace s2 = trace s1 @ pre @
             [FsAccess ?p True, FsRm ?p None, GitClone authUrl ?p [''--bare''] None]"
    by simp
  with c1 f1 c2 show ?thesis by blast
qed

theorem cloneRepository_twice_witness:
  "cloneRepository stale_dir_env ''temp'' ''https://bitbucket.org/w/demo.git'' ''demo''
     ''alice'' ''app-secret''
     (snd (cloneRepository stale_dir_env ''temp'' ''https://bitbucket.org/w/demo.git'' ''demo''
             ''alice'' ''app-secret'' init_state)) =
   (Inr ''temp/demo'',
    \<lparr>fs = [''temp/demo'', ''temp''],
     trace = [FsAccess ''temp'' False, FsMkdir ''temp'' None, FsAccess ''temp/demo'' False,
              GitClone ''alice:app-secret@https://bitbucket.org/w/demo.git'' ''temp/demo''
                [''--bare''] None,
              FsAccess ''temp'' True, FsAccess ''temp/demo'' True, FsRm ''temp/demo'' None,
              GitClone ''alice:app-secret@https://bitbucket.org/w/demo.git'' ''temp/demo''
                [''--bare''] None]\<rparr>)"
proof -
  let ?E = stale_dir_env
  have rm_ok: "\<forall>s. rm_res ?E s (path_join ?E ''temp'' ''demo'') = None"
    by (simp add: stale_dir_env_def quiet_env_def)
  have mkdir_ok: "\<forall>s. mkdir_res ?E s ''temp'' = None"
    by (simp add: stale_dir_env_def quiet_env_def)
  have url: "url_with_auth ?E ''https://bitbucket.org/w/demo.git'' ''alice'' ''app-secret'' =
        Some ''alice:app-secret@https://bitbucket.org/w/demo.git''"
    by (simp add: stale_dir_env_def quiet_env_def)
  have clone_ok: "\<forall>s. path_join ?E ''temp'' ''demo'' \<notin> set (fs s) \<longrightarrow>
        clone_res ?E s ''alice:app-secret@https://bitbucket.org/w/demo.git''
          (path_join ?E ''temp'' ''demo'') [''--bare''] = None"
    by (simp add: stale_dir_env_def quiet_env_def)
  have ev: "cloneRepository stale_dir_env ''temp'' ''https://bitbucket.org/w/demo.git'' ''demo''
     ''alice'' ''app-secret''
     (snd (cloneRepository stale_dir_env ''temp'' ''https://bitbucket.org/w/demo.git'' ''demo''
             ''alice'' ''app-secret'' init_state)) =
   (Inr ''temp/demo'',
    \<lparr>fs = [''temp/demo'', ''temp''],
     trace = [FsAccess ''temp'' False, FsMkdir ''temp'' None, FsAccess ''temp/demo'' False,
              GitClone ''alice:app-secret@https://bitbucket.org/w/demo.git'' ''temp/demo''
                [''--bare''] None,
              FsAccess ''temp'' True, FsAccess ''temp/demo'' True, FsRm ''temp/demo'' None,
              GitClone ''alice:app-secret@https://bitbucket.org/w/demo.git'' ''temp/demo''
                [''--bare''] None]\<rparr>)"
    by (simp add: model_defs prim_defs stale_dir_env_def quiet_env_def)
  from cloneRepository_twice [OF rm_ok mkdir_ok url clone_ok, of init_state] ev show ?thesis
    by simp
qed

text \<open>
  C9 as stated fails: when the removal of the directory that the first call left fails, the
  \<^verbatim>\<open>catch\<close> swallows the error, \<^verbatim>\<open>git clone\<close> finds the directory still there, and
  the second call throws.
\<close>

theorem cloneRepository_stale_directory_fails:
  "cloneRepository stale_rm_fails_env ''temp'' ''https://bitbucket.org/w/demo.git'' ''demo''
     ''alice'' ''app-secret''
     (snd (cloneRepository stale_rm_fails_env ''temp'' ''https://bitbucket.org/w/demo.git'' ''demo''
             ''alice'' ''app-secret'' init_state)) =
   (Inl (''Failed to clone repository demo: '' @
         ''fatal: destination path already exists and is not an empty directory.''),
    \<lparr>fs = [''temp/demo'', ''temp''],
     trace = [FsAccess ''temp'' False, FsMkdir ''temp'' None, FsAccess ''temp/demo'' False,
              GitClone ''alice:app-secret@https://bitbucket.org/w/demo.git'' ''temp/demo''
                [''--bare''] None,
              FsAccess ''temp'' True, FsAccess ''temp/demo'' True,
              FsRm ''temp/demo'' (Some ''EBUSY: resource busy or locked, rmdir 'temp/demo' ''),
              GitClone ''alice:app-secret@https://bitbucket.org/w/demo.git'' ''temp/demo''
                [''--bare'']
                (Some ''fatal: destination path already exists and is not an empty directory.'')]\<rparr>)"
  by (simp add: model_defs prim_defs stale_rm_fails_env_def stale_dir_env_def quiet_env_def)

subsection \<open>The classification of a failed push\<close>

text \<open>
  C3, amended. When the first push attempt fails with message \<open>m\<close>, \<^verbatim>\<open>attemptPush\<close>
  returns \<^verbatim>\<open>false\<close> (the failure is taken for a large-file failure that can be
  recovered) exactly when \<open>m\<close> contains \<^verbatim>\<open>exceeds GitHub's file size limit\<close> or
  \<^verbatim>\<open>GH001: Large files detected\<close>, letter for letter; then \<^verbatim>\<open>pushToGitHub\<close> goes on
  with the scan, and otherwise it throws the push error without any further step.
\<close>

theorem attemptPush_classification:
  assumes att: "attemptPush_try E repoPath url s0 = (Some m, s1)"
    and url: "addAuthToUrl E githubCloneUrl githubUsername githubToken = Inr url"
  shows "((fst (attemptPush E repoPath url False s0) = Inr False) =
            ((\<exists>a b. m = a @ ''exceeds GitHub's file size limit'' @ b) \<or>
             (\<exists>a b. m = a @ ''GH001: Large files detected'' @ b))) \<and>
         (if fst (attemptPush E repoPath url False s0) = Inr False
          then \<exists>rest. steps (trace (snd (pushToGitHub E repoPath githubCloneUrl githubToken
                                            githubUsername s0))) =
                        steps (trace s1) @ ScanStep # rest
          else pushToGitHub E repoPath githubCloneUrl githubToken githubUsername s0 =
                 (Inl (''Failed to push to GitHub: '' @ m), s1))"
proof (cases "is_large_file_error m")
  case True
  have a: "attemptPush E repoPath url False s0 = (Inr False, emit (Log DetectedLargeFileError) s1)"
    by (simp add: attemptPush_def att True)
  define s2 where "s2 = emit (Log InitialPushFailed) (emit (Log DetectedLargeFileError) s1)"
  have st2: "steps (trace s2) = steps (trace s1)"
    by (simp add: s2_def steps_emit)
  obtain r s3 where rc: "pushToGitHub_recover E repoPath url s2 = (r, s3)"
    by (cases "pushToGitHub_recover E repoPath url s2")
  obtain rest where "steps (trace s3) = steps (trace s2) @ ScanStep # rest"
    using steps_recover_ext [of E repoPath url s2] rc by auto
  then have "\<exists>rest. steps (trace (snd (pushToGitHub E repoPath githubCloneUrl githubToken
                                            githubUsername s0))) =
                        steps (trace s1) @ ScanStep # rest"
    by (simp add: pushToGitHub_def url a s2_def [symmetric] rc st2 split: sum.splits)
  with True a show ?thesis
    by (simp add: is_large_file_error_def str_includes_iff)
next
  case False
  have a: "attemptPush E repoPath url False s0 = (Inl (''Failed to push to GitHub: '' @ m), s1)"
    by (simp add: attemptPush_def att False)
  have "pushToGitHub E repoPath githubCloneUrl githubToken githubUsername s0 =
                 (Inl (''Failed to push to GitHub: '' @ m), s1)"
    by (simp add: pushToGitHub_def url a)
  with False a show ?thesis
    by (simp add: is_large_file_error_def str_includes_iff)
qed

theorem attemptPush_classification_witness:
  "attemptPush no_large_found_env ''temp/demo'' ''alice:ghp_token@https://github.com/alice/demo.git''
     False init_state =
     (Inr False,
      \<lparr>fs = [],
       trace = [SimpleGit ''temp/demo'' None,
                GitRemoveRemote ''temp/demo'' ''github'' None,
                GitAddRemote ''temp/demo'' ''github''
                  ''alice:ghp_token@https://github.com/alice/demo.git'' None,
                GitPush ''temp/demo'' ''github'' ''--mirror'' [''--force'']
                  (Some ''remote: error: File data.bin exceeds GitHub's file size limit of 100.00 MB''),
                Log DetectedLargeFileError]\<rparr>) \<and>
   steps (trace (snd (pushToGitHub no_large_found_env ''temp/demo''
                        ''https://github.com/alice/demo.git'' ''ghp_token'' ''alice'' init_state))) =
     [PushStep, ScanStep]"
proof -
  let ?E = no_large_found_env
  let ?m = "''remote: error: File data.bin exceeds GitHub's file size limit of 100.00 MB''"
  have att: "attemptPush_try ?E ''temp/demo'' ''alice:ghp_token@https://github.com/alice/demo.git''
               init_state =
             (Some ?m, snd (attemptPush_try ?E ''temp/demo''
                              ''alice:ghp_token@https://github.com/alice/demo.git'' init_state))"
    by (simp add: model_defs prim_defs no_large_found_env_def quiet_env_def)
  have url: "addAuthToUrl ?E ''https://github.com/alice/demo.git'' ''alice'' ''ghp_token'' =
               Inr ''alice:ghp_token@https://github.com/alice/demo.git''"
    by (simp add: model_defs no_large_found_env_def quiet_env_def)
  have a: "attemptPush ?E ''temp/demo'' ''alice:ghp_token@https://github.com/alice/demo.git''
     False init_state =
     (Inr False,
      \<lparr>fs = [],
       trace = [SimpleGit ''temp/demo'' None,
                GitRemoveRemote ''temp/demo'' ''github'' None,
                GitAddRemote ''temp/demo'' ''github''
                  ''alice:ghp_token@https://github.com/alice/demo.git'' None,
                GitPush ''temp/demo'' ''github'' ''--mirror'' [''--force''] (Some ?m),
                Log DetectedLargeFileError]\<rparr>)"
    by (simp add: model_defs prim_defs no_large_found_env_def quiet_env_def)
  have p: "steps (trace (snd (pushToGitHub ?E ''temp/demo''
                        ''https://github.com/alice/demo.git'' ''ghp_token'' ''alice'' init_state))) =
     [PushStep, ScanStep]"
    by (simp add: model_defs prim_defs no_large_found_env_def quiet_env_def steps_def)
  from attemptPush_classification [OF att url] a p show ?thesis
    by simp
qed

text \<open>
  C3 as stated fails: a message that contains \<^verbatim>\<open>exceeds file size limit\<close> is not
  taken for a large-file failure; the push error is thrown and no scan is made.
\<close>

theorem attemptPush_classification_counterexample:
  "str_includes ''remote: error: File data.bin exceeds file size limit'' ''exceeds file size limit'' \<and>
   pushToGitHub (push_fails_env ''remote: error: File data.bin exceeds file size limit'')
     ''temp/demo'' ''https://github.com/alice/demo.git'' ''ghp_token'' ''alice'' init_state =
     (Inl ''Failed to push to GitHub: remote: error: File data.bin exceeds file size limit'',
      \<lparr>fs = [],
       trace = [SimpleGit ''temp/demo'' None,
                GitRemoveRemote ''temp/demo'' ''github'' None,
                GitAddRemote ''temp/demo'' ''github''
                  ''alice:ghp_token@https://github.com/alice/demo.git'' None,
                GitPush ''temp/demo'' ''github'' ''--mirror'' [''--force'']
                  (Some ''remote: error: File data.bin exceeds file size limit'')]\<rparr>)"
  by (simp add: model_defs prim_defs push_fails_env_def quiet_env_def)

subsection \<open>The scan\<close>

lemma getObjectSize_reported:
  "getObjectSize E repoPath h s =
     (reported_size (spawn_res E s repoPath [''cat-file'', ''-s'', h]),
      emit (Spawn repoPath [''cat-file'', ''-s'', h] (spawn_res E s repoPath [''cat-file'', ''-s'', h])) s)"
  by (simp add: getObjectSize_def spawn_git_def reported_size_def Let_def
        split: proc_result.splits option.splits)

lemma scan_lines_records:
  "\<exists>lookups.
     length lookups = length (line_objects ls) \<and>
     trace (snd (scan_lines E repoPath lim ls s)) =
       trace s @ lookup_events repoPath (line_objects ls) lookups \<and>
     [r. Some r \<leftarrow> fst (scan_lines E repoPath lim ls s)] =
       large_records lim (line_objects ls) lookups"
proof (induction ls arbitrary: s)
  case Nil
  show ?case by (simp add: lookup_events_def large_records_def)
next
  case (Cons l ls)
  show ?case
  proof (cases "str_split CHR '' '' l")
    case Nil
    then show ?thesis using Cons.IH [of s] by simp
  next
    case (Cons h parts)
    note sp = this
    show ?thesis
    proof (cases "parts = []")
      case True
      then show ?thesis using Cons.IH [of s] sp by simp
    next
      case False
      define r where "r = spawn_res E s repoPath [''cat-file'', ''-s'', h]"
      define s1 where "s1 = emit (Spawn repoPath [''cat-file'', ''-s'', h] r) s"
      have g: "getObjectSize E repoPath h s = (reported_size r, s1)"
        by (simp add: getObjectSize_reported r_def s1_def)
      obtain rs s2 where sc: "scan_lines E repoPath lim ls s1 = (rs, s2)"
        by (cases "scan_lines E repoPath lim ls s1")
      from Cons.IH [of s1] obtain lookups where len: "length lookups = length (line_objects ls)"
        and tr: "trace s2 = trace s1 @ lookup_events repoPath (line_objects ls) lookups"
        and res: "[r. Some r \<leftarrow> rs] = large_records lim (line_objects ls) lookups"
        unfolding sc fst_conv snd_conv by blast
      have step: "scan_lines E repoPath lim (l # ls) s =
          ((if lim \<le> reported_size r
            then Some \<lparr>path_f = str_join '' '' parts, size_f = reported_size r, hash_f = h\<rparr>
            else None) # rs, s2)"
        using False sp g sc by simp
      have lo: "line_objects (l # ls) = (h, str_join '' '' parts) # line_objects ls"
        using False sp by simp
      have a: "length (r # lookups) = length (line_objects (l # ls))"
        unfolding lo using len by simp
      have b: "trace s2 = trace s @ lookup_events repoPath (line_objects (l # ls)) (r # lookups)"
        unfolding lo using tr by (simp add: s1_def trace_emit lookup_events_def)
      have d: "[r. Some r \<leftarrow> (if lim \<le> reported_size r
            then Some \<lparr>path_f = str_join '' '' parts, size_f = reported_size r, hash_f = h\<rparr>
            else None) # rs] =
          large_records lim (line_objects (l # ls)) (r # lookups)"
        unfolding lo using res by (simp add: large_records_def)
      have "length (r # lookups) = length (line_objects (l # ls)) \<and>
            trace (snd (scan_lines E repoPath lim (l # ls) s)) =
              trace s @ lookup_events repoPath (line_objects (l # ls)) (r # lookups) \<and>
            [r. Some r \<leftarrow> fst (scan_lines E repoPath lim (l # ls) s)] =
              large_records lim (line_objects (l # ls)) (r # lookups)"
        unfolding step fst_conv snd_conv using a b d by blast
      then show ?thesis by (rule exI)
    qed
  qed
qed

lemma paths_large_records:
  "map path_f (large_records sizeLimit objs lookups) =
     map (\<lambda>((h, p), r). p) (filter (\<lambda>((h, p), r). sizeLimit \<le> reported_size r) (zip objs lookups))"
proof -
  have "map path_f [\<lparr>path_f = p, size_f = reported_size r, hash_f = h\<rparr>.
                      ((h, p), r) \<leftarrow> zs, sizeLimit \<le> reported_size r] =
        map (\<lambda>((h, p), r). p) (filter (\<lambda>((h, p), r). sizeLimit \<le> reported_size r) zs)" for zs
    by (induction zs) auto
  then show ?thesis
    by (simp add: large_records_def)
qed

lemma findLargeFiles_scan:
  assumes "spawn_res E s0 repoPath [''rev-list'', ''--objects'', ''--all''] = Exit 0 output"
  shows "\<exists>lookups.
           length lookups = length (enumerated_objects output) \<and>
           events_since s0 (snd (findLargeFiles E repoPath sizeLimit s0)) =
             Spawn repoPath [''rev-list'', ''--objects'', ''--all''] (Exit 0 output) #
             lookup_events repoPath (enumerated_objects output) lookups \<and>
           fst (findLargeFiles E repoPath sizeLimit s0) =
             Inr (large_records sizeLimit (enumerated_objects output) lookups)"
proof -
  define s1 where "s1 = emit (Spawn repoPath [''rev-list'', ''--objects'', ''--all''] (Exit 0 output)) s0"
  define ls where "ls = filter (\<lambda>line. trim line \<noteq> []) (str_split (CHR 0x0A) output)"
  have eo: "enumerated_objects output = line_objects ls"
    by (simp add: enumerated_objects_def ls_def)
  obtain rs s2 where r: "scan_lines E repoPath sizeLimit ls s1 = (rs, s2)"
    by (cases "scan_lines E repoPath sizeLimit ls s1")
  have f: "findLargeFiles E repoPath sizeLimit s0 = (Inr [r. Some r \<leftarrow> rs], s2)"
    using assms r by (simp add: findLargeFiles_def prim_defs s1_def ls_def)
  from scan_lines_records [of ls E repoPath sizeLimit s1]
  obtain lookups where len: "length lookups = length (line_objects ls)"
    and tr: "trace s2 = trace s1 @ lookup_events repoPath (line_objects ls) lookups"
    and res: "[r. Some r \<leftarrow> rs] = large_records sizeLimit (line_objects ls) lookups"
    unfolding r fst_conv snd_conv by blast
  have ev: "events_since s0 s2 =
      Spawn repoPath [''rev-list'', ''--objects'', ''--all''] (Exit 0 output) #
      lookup_events repoPath (line_objects ls) lookups"
    by (simp add: events_since_def tr s1_def trace_emit)
  have "length lookups = length (enumerated_objects output) \<and>
           events_since s0 (snd (findLargeFiles E repoPath sizeLimit s0)) =
             Spawn repoPath [''rev-list'', ''--objects'', ''--all''] (Exit 0 output) #
             lookup_events repoPath (enumerated_objects output) lookups \<and>
           fst (findLargeFiles E repoPath sizeLimit s0) =
             Inr (large_records sizeLimit (enumerated_objects output) lookups)"
    unfolding f fst_conv snd_conv eo using len ev res by simp
  then show ?thesis by (rule exI)
qed

text \<open>
  C4, amended. When the enumeration succeeds, \<^verbatim>\<open>findLargeFiles\<close> looks up the size of
  every enumerated object that has a path, once and in the order of the enumeration, and
  returns a sequence: in that order, one record for every such object whose lookup reports
  at least the limit, and nothing else. Nothing is collapsed: the paths of the result are
  the paths of those objects, each as often as an object of that size is enumerated under
  it.
\<close>

theorem findLargeFiles_records:
  assumes "spawn_res E s0 repoPath [''rev-list'', ''--objects'', ''--all''] = Exit 0 output"
  shows "\<exists>lookups files.
           length lookups = length (enumerated_objects output) \<and>
           events_since s0 (snd (findLargeFiles E repoPath sizeLimit s0)) =
             Spawn repoPath [''rev-list'', ''--objects'', ''--all''] (Exit 0 output) #
             lookup_events repoPath (enumerated_objects output) lookups \<and>
           fst (findLargeFiles E repoPath sizeLimit s0) = Inr files \<and>
           files = large_records sizeLimit (enumerated_objects output) lookups \<and>
           map path_f files =
             map (\<lambda>((h, p), r). p)
               (filter (\<lambda>((h, p), r). sizeLimit \<le> reported_size r)
                  (zip (enumerated_objects output) lookups))"
proof -
  from findLargeFiles_scan [OF assms, of sizeLimit]
  obtain lookups where l: "length lookups = length (enumerated_objects output)"
    and e: "events_since s0 (snd (findLargeFiles E repoPath sizeLimit s0)) =
             Spawn repoPath [''rev-list'', ''--objects'', ''--all''] (Exit 0 output) #
             lookup_events repoPath (enumerated_objects output) lookups"
    and f: "fst (findLargeFiles E repoPath sizeLimit s0) =
             Inr (large_records sizeLimit (enumerated_objects output) lookups)"
    by blast
  from l e f paths_large_records [of sizeLimit "enumerated_objects output" lookups]
  show ?thesis by blast
qed

theorem findLargeFiles_records_witness:
  "enumerated_objects (''c0ffee'' @ [CHR 0x0A] @ ''7ee5 assets'' @ [CHR 0x0A] @
                       ''b10b assets/video.mp4'' @ [CHR 0x0A]) =
     [(''7ee5'', ''assets''), (''b10b'', ''assets/video.mp4'')] \<and>
   findLargeFiles large_repo_env ''temp/demo2'' default_sizeLimit init_state =
     (Inr [\<lparr>path_f = ''assets/video.mp4'', size_f = 157286400, hash_f = ''b10b''\<rparr>],
      \<lparr>fs = [],
       trace = [Spawn ''temp/demo2'' [''rev-list'', ''--objects'', ''--all'']
                  (Exit 0 (''c0ffee'' @ [CHR 0x0A] @ ''7ee5 assets'' @ [CHR 0x0A] @
                           ''b10b assets/video.mp4'' @ [CHR 0x0A])),
                Spawn ''temp/demo2'' [''cat-file'', ''-s'', ''7ee5''] (Exit 0 (''120'' @ [CHR 0x0A])),
                Spawn ''temp/demo2'' [''cat-file'', ''-s'', ''b10b'']
                  (Exit 0 (''157286400'' @ [CHR 0x0A]))]\<rparr>)"
proof -
  have sp: "spawn_res large_repo_env init_state ''temp/demo2'' [''rev-list'', ''--objects'', ''--all''] =
        Exit 0 (''c0ffee'' @ [CHR 0x0A] @ ''7ee5 assets'' @ [CHR 0x0A] @
                ''b10b assets/video.mp4'' @ [CHR 0x0A])"
    by (simp add: demo_defs large_repo_env_def)
  have e: "enumerated_objects (''c0ffee'' @ [CHR 0x0A] @ ''7ee5 assets'' @ [CHR 0x0A] @
                       ''b10b assets/video.mp4'' @ [CHR 0x0A]) =
     [(''7ee5'', ''assets''), (''b10b'', ''assets/video.mp4'')]"
    by (simp add: enumerated_objects_def trim_def is_ws_def)
  have r: "findLargeFiles large_repo_env ''temp/demo2'' default_sizeLimit init_state =
     (Inr [\<lparr>path_f = ''assets/video.mp4'', size_f = 157286400, hash_f = ''b10b''\<rparr>],
      \<lparr>fs = [],
       trace = [Spawn ''temp/demo2'' [''rev-list'', ''--objects'', ''--all'']
                  (Exit 0 (''c0ffee'' @ [CHR 0x0A] @ ''7ee5 assets'' @ [CHR 0x0A] @
                           ''b10b assets/video.mp4'' @ [CHR 0x0A])),
                Spawn ''temp/demo2'' [''cat-file'', ''-s'', ''7ee5''] (Exit 0 (''120'' @ [CHR 0x0A])),
                Spawn ''temp/demo2'' [''cat-file'', ''-s'', ''b10b'']
                  (Exit 0 (''157286400'' @ [CHR 0x0A]))]\<rparr>)"
    by (simp add: model_defs prim_defs demo_defs large_repo_env_def)
  from findLargeFiles_records [OF sp, of default_sizeLimit] e r show ?thesis
    by simp
qed

text \<open>
  C4 as stated fails: two objects of 200 MiB enumerated under the same path give two records
  with that path, and the rewriter is given the path twice.
\<close>

theorem findLargeFiles_duplicate_paths:
  "fst (findLargeFiles dup_path_env ''temp/demo'' default_sizeLimit init_state) =
     Inr [\<lparr>path_f = ''big.bin'', size_f = 209715200, hash_f = ''aaa1''\<rparr>,
          \<lparr>path_f = ''big.bin'', size_f = 209715200, hash_f = ''bbb2''\<rparr>] \<and>
   filterRepoArgs (map path_f
       [\<lparr>path_f = ''big.bin'', size_f = 209715200, hash_f = ''aaa1''\<rparr>,
        \<lparr>path_f = ''big.bin'', size_f = 209715200, hash_f = ''bbb2''\<rparr>]) =
     [''filter-repo'', ''--invert-paths'', ''--force'', ''--path'', ''big.bin'', ''--path'', ''big.bin'']"
  by (simp add: model_defs prim_defs dup_path_env_def quiet_env_def)

lemma getObjectSize_cases:
  "\<exists>r. snd (getObjectSize E repoPath h s) = emit (Spawn repoPath [''cat-file'', ''-s'', h] r) s \<and>
       (fst (getObjectSize E repoPath h s) \<noteq> 0 \<longrightarrow>
          (\<exists>out. r = Exit 0 out \<and> parseInt (trim out) = Some (fst (getObjectSize E repoPath h s))))"
  by (auto simp: getObjectSize_def prim_defs split: proc_result.splits option.splits)

lemma scan_lines_lookups:
  assumes "0 < lim"
  shows "\<exists>X. trace (snd (scan_lines E repoPath lim ls s)) = trace s @ X \<and>
           (\<forall>f. Some f \<in> set (fst (scan_lines E repoPath lim ls s)) \<longrightarrow>
              (\<exists>out. Spawn repoPath [''cat-file'', ''-s'', hash_f f] (Exit 0 out) \<in> set X \<and>
                     parseInt (trim out) = Some (size_f f) \<and> lim \<le> size_f f))"
proof (induction ls arbitrary: s)
  case Nil
  then show ?case by simp
next
  case (Cons l ls)
  show ?case
  proof (cases "str_split CHR '' '' l")
    case Nil
    then show ?thesis using Cons.IH [of s] by simp
  next
    case (Cons h parts)
    note sp = this
    show ?thesis
    proof (cases "parts = []")
      case True
      then show ?thesis using Cons.IH [of s] sp by simp
    next
      case False
      obtain sz s1 where g: "getObjectSize E repoPath h s = (sz, s1)"
        by (cases "getObjectSize E repoPath h s")
      obtain r where s1: "s1 = emit (Spawn repoPath [''cat-file'', ''-s'', h] r) s"
        and ok: "sz \<noteq> 0 \<longrightarrow> (\<exists>out. r = Exit 0 out \<and> parseInt (trim out) = Some sz)"
        using getObjectSize_cases [of E repoPath h s] g by auto
      obtain rs s2 where sc: "scan_lines E repoPath lim ls s1 = (rs, s2)"
        by (cases "scan_lines E repoPath lim ls s1")
      obtain X where X: "trace s2 = trace s1 @ X"
        and Xp: "\<forall>f. Some f \<in> set rs \<longrightarrow>
              (\<exists>out. Spawn repoPath [''cat-file'', ''-s'', hash_f f] (Exit 0 out) \<in> set X \<and>
                     parseInt (trim out) = Some (size_f f) \<and> lim \<le> size_f f)"
        using Cons.IH [of s1] sc by auto
      have res: "scan_lines E repoPath lim (l # ls) s =
          ((if lim \<le> sz then Some \<lparr>path_f = str_join '' '' parts, size_f = sz, hash_f = h\<rparr> else None) # rs, s2)"
        using False sp g sc by simp
      have tr: "trace s2 = trace s @ (Spawn repoPath [''cat-file'', ''-s'', h] r # X)"
        using X s1 by (simp add: trace_emit)
      have "\<forall>f. Some f \<in> set ((if lim \<le> sz then Some \<lparr>path_f = str_join '' '' parts, size_f = sz, hash_f = h\<rparr> else None) # rs) \<longrightarrow>
              (\<exists>out. Spawn repoPath [''cat-file'', ''-s'', hash_f f] (Exit 0 out) \<in> set (Spawn repoPath [''cat-file'', ''-s'', h] r # X) \<and>
                     parseInt (trim out) = Some (size_f f) \<and> lim \<le> size_f f)"
      proof (intro allI impI)
        fix f
        assume "Some f \<in> set ((if lim \<le> sz then Some \<lparr>path_f = str_join '' '' parts, size_f = sz, hash_f = h\<rparr> else None) # rs)"
        then consider "lim \<le> sz" "f = \<lparr>path_f = str_join '' '' parts, size_f = sz, hash_f = h\<rparr>"
          | "Some f \<in> set rs"
          by (auto split: if_splits)
        then show "\<exists>out. Spawn repoPath [''cat-file'', ''-s'', hash_f f] (Exit 0 out) \<in> set (Spawn repoPath [''cat-file'', ''-s'', h] r # X) \<and>
                     parseInt (trim out) = Some (size_f f) \<and> lim \<le> size_f f"
        proof cases
          case 1
          with assms have "sz \<noteq> 0" by simp
          with ok obtain out where "r = Exit 0 out" "parseInt (trim out) = Some sz" by blast
          with 1 show ?thesis by auto
        next
          case 2
          with Xp show ?thesis by auto
        qed
      qed
      with res tr show ?thesis by simp
    qed
  qed
qed

text \<open>
  C8. With a positive size limit: when the enumeration cannot be spawned or exits with a
  code other than 0, \<^verbatim>\<open>findLargeFiles\<close> rejects; when it exits with 0,
  \<^verbatim>\<open>findLargeFiles\<close> resolves whatever the size lookups do, and every record it returns
  comes from a lookup of its object that exited with 0 and printed its size: an object whose
  lookup failed is not in the result.
\<close>

theorem findLargeFiles_failures:
  assumes "0 < sizeLimit"
  shows "(case spawn_res E s0 repoPath [''rev-list'', ''--objects'', ''--all''] of
            SpawnError m \<Rightarrow> fst (findLargeFiles E repoPath sizeLimit s0) = Inl m
          | Exit code output \<Rightarrow>
              if code \<noteq> 0
              then fst (findLargeFiles E repoPath sizeLimit s0) = Inl ''Failed to list git objects''
              else (\<exists>files. fst (findLargeFiles E repoPath sizeLimit s0) = Inr files \<and>
                     (\<forall>f \<in> set files. \<exists>out.
                        Spawn repoPath [''cat-file'', ''-s'', hash_f f] (Exit 0 out)
                          \<in> set (events_since s0 (snd (findLargeFiles E repoPath sizeLimit s0))) \<and>
                        parseInt (trim out) = Some (size_f f) \<and> sizeLimit \<le> size_f f)))"
proof (cases "spawn_res E s0 repoPath [''rev-list'', ''--objects'', ''--all'']")
  case (SpawnError m)
  then show ?thesis by (simp add: findLargeFiles_def prim_defs)
next
  case (Exit code out0)
  show ?thesis
  proof (cases "code = 0")
    case False
    with Exit show ?thesis by (simp add: findLargeFiles_def prim_defs)
  next
    case True
    define s1 where "s1 = emit (Spawn repoPath [''rev-list'', ''--objects'', ''--all''] (Exit 0 out0)) s0"
    define ls where "ls = filter (\<lambda>line. trim line \<noteq> []) (str_split (CHR 0x0A) out0)"
    obtain rs s2 where r: "scan_lines E repoPath sizeLimit ls s1 = (rs, s2)"
      by (cases "scan_lines E repoPath sizeLimit ls s1")
    have f: "findLargeFiles E repoPath sizeLimit s0 = (Inr [r. Some r \<leftarrow> rs], s2)"
      using Exit True r by (simp add: findLargeFiles_def prim_defs s1_def ls_def)
    obtain X where X: "trace s2 = trace s1 @ X"
      and Xp: "\<forall>f. Some f \<in> set rs \<longrightarrow>
              (\<exists>out. Spawn repoPath [''cat-file'', ''-s'', hash_f f] (Exit 0 out) \<in> set X \<and>
                     parseInt (trim out) = Some (size_f f) \<and> sizeLimit \<le> size_f f)"
      using scan_lines_lookups [OF assms, of E repoPath ls s1] r by auto
    have ev: "events_since s0 s2 = Spawn repoPath [''rev-list'', ''--objects'', ''--all''] (Exit 0 out0) # X"
      by (simp add: events_since_def X s1_def trace_emit)
    have "\<forall>f \<in> set [r. Some r \<leftarrow> rs]. \<exists>out.
             Spawn repoPath [''cat-file'', ''-s'', hash_f f] (Exit 0 out) \<in> set (events_since s0 s2) \<and>
             parseInt (trim out) = Some (size_f f) \<and> sizeLimit \<le> size_f f"
    proof
      fix f assume "f \<in> set [r. Some r \<leftarrow> rs]"
      then have "Some f \<in> set rs" by auto
      with Xp ev show "\<exists>out.
             Spawn repoPath [''cat-file'', ''-s'', hash_f f] (Exit 0 out) \<in> set (events_since s0 s2) \<and>
             parseInt (trim out) = Some (size_f f) \<and> sizeLimit \<le> size_f f"
        by auto
    qed
    with Exit True f show ?thesis by simp
  qed
qed

theorem findLargeFiles_failures_witness:
  "0 < default_sizeLimit \<and>
   findLargeFiles lookup_fails_env ''temp/demo'' default_sizeLimit init_state =
     (Inr [\<lparr>path_f = ''other.bin'', size_f = 209715200, hash_f = ''bbb2''\<rparr>],
      \<lparr>fs = [],
       trace = [Spawn ''temp/demo'' [''rev-list'', ''--objects'', ''--all'']
                  (Exit 0 (''aaa1 big.bin'' @ [CHR 0x0A] @ ''bbb2 other.bin'' @ [CHR 0x0A])),
                Spawn ''temp/demo'' [''cat-file'', ''-s'', ''aaa1''] (Exit 128 []),
                Spawn ''temp/demo'' [''cat-file'', ''-s'', ''bbb2'']
                  (Exit 0 (''209715200'' @ [CHR 0x0A]))]\<rparr>)"
proof -
  have h: "0 < default_sizeLimit"
    by (simp add: default_sizeLimit_def)
  have "findLargeFiles lookup_fails_env ''temp/demo'' default_sizeLimit init_state =
     (Inr [\<lparr>path_f = ''other.bin'', size_f = 209715200, hash_f = ''bbb2''\<rparr>],
      \<lparr>fs = [],
       trace = [Spawn ''temp/demo'' [''rev-list'', ''--objects'', ''--all'']
                  (Exit 0 (''aaa1 big.bin'' @ [CHR 0x0A] @ ''bbb2 other.bin'' @ [CHR 0x0A])),
                Spawn ''temp/demo'' [''cat-file'', ''-s'', ''aaa1''] (Exit 128 []),
                Spawn ''temp/demo'' [''cat-file'', ''-s'', ''bbb2'']
                  (Exit 0 (''209715200'' @ [CHR 0x0A]))]\<rparr>)"
    by (simp add: model_defs prim_defs lookup_fails_env_def quiet_env_def)
  with h findLargeFiles_failures [OF h, where E = lookup_fails_env and ?s0.0 = init_state and repoPath = "''temp/demo''"] show ?thesis
    by simp
qed

subsection \<open>The rewrite\<close>

lemma delete_refs_trace:
  "\<exists>outcomes. length outcomes = length refs \<and>
     delete_refs E repoPath refs s =
       s\<lparr>trace := trace s @ deletion_events repoPath refs outcomes\<rparr>"
proof (induction refs arbitrary: s)
  case Nil
  then show ?case by simp
next
  case (Cons ref refs)
  define r where "r = raw_res E s repoPath [''update-ref'', ''-d'', ref]"
  define s1 where "s1 = (case r of
        Inr out \<Rightarrow> emit (GitRaw repoPath [''update-ref'', ''-d'', ref] r) s
      | Inl m \<Rightarrow> emit (LogWarning (CouldNotDeleteRef ref))
                   (emit (GitRaw repoPath [''update-ref'', ''-d'', ref] r) s))"
  have d: "delete_refs E repoPath (ref # refs) s = delete_refs E repoPath refs s1"
    by (simp add: git_raw_def Let_def r_def s1_def split: sum.splits)
  have t1: "s1 = s\<lparr>trace := trace s @ GitRaw repoPath [''update-ref'', ''-d'', ref] r #
                (case r of Inl m \<Rightarrow> [LogWarning (CouldNotDeleteRef ref)] | Inr out \<Rightarrow> [])\<rparr>"
    by (simp add: s1_def emit_def split: sum.splits)
  obtain outcomes where l: "length outcomes = length refs"
    and e: "delete_refs E repoPath refs s1 =
              s1\<lparr>trace := trace s1 @ deletion_events repoPath refs outcomes\<rparr>"
    using Cons.IH [of s1] by blast
  have "delete_refs E repoPath (ref # refs) s =
          s\<lparr>trace := trace s @ deletion_events repoPath (ref # refs) (r # outcomes)\<rparr>"
    unfolding d e by (simp add: t1)
  moreover have "length (r # outcomes) = length (ref # refs)"
    using l by simp
  ultimately show ?case by blast
qed

lemma fallback_transcript:
  assumes ctor: "simple_git_res E s repoPath = None"
    and fb: "raw_res E (emit (Log StartingFilterBranch) (emit (SimpleGit repoPath None) s))
               repoPath (filterBranchArgs filePaths) = Inr out0"
    and fer: "raw_res E
               (emit (Log FinishedFilterBranch)
                 (emit (GitRaw repoPath (filterBranchArgs filePaths) (Inr out0))
                   (emit (Log StartingFilterBranch) (emit (SimpleGit repoPath None) s))))
               repoPath forEachRefArgs = Inr forEachRef"
  shows "\<exists>outcomes.
           length outcomes = length (original_refs forEachRef) \<and>
           removeLargeFilesWithFilterBranch E repoPath filePaths s =
             (Inr True,
              s\<lparr>trace := trace s @ fallback_events repoPath filePaths out0 forEachRef outcomes\<rparr>)"
proof -
  let ?refs = "original_refs forEachRef"
  define sa where "sa = emit (Log StartingFilterBranch) (emit (SimpleGit repoPath None) s)"
  define sb where "sb = emit (GitRaw repoPath forEachRefArgs (Inr forEachRef))
                          (emit (Log FinishedFilterBranch)
                            (emit (GitRaw repoPath (filterBranchArgs filePaths) (Inr out0)) sa))"
  obtain outcomes where l: "length outcomes = length ?refs"
    and d: "delete_refs E repoPath ?refs sb =
              sb\<lparr>trace := trace sb @ deletion_events repoPath ?refs outcomes\<rparr>"
    using delete_refs_trace [of ?refs E repoPath sb] by blast
  have r: "removeLargeFilesWithFilterBranch E repoPath filePaths s =
          (Inr True, emit (Log RemovedFilesAndRefs) (delete_refs E repoPath ?refs sb))"
    using ctor fb fer
    by (simp add: removeLargeFilesWithFilterBranch_def prim_defs original_refs_def sb_def sa_def
          del: delete_refs.simps)
  have "emit (Log RemovedFilesAndRefs) (delete_refs E repoPath ?refs sb) =
          s\<lparr>trace := trace s @ fallback_events repoPath filePaths out0 forEachRef outcomes\<rparr>"
    unfolding d by (simp add: sb_def sa_def emit_def fallback_events_def)
  with r have "removeLargeFilesWithFilterBranch E repoPath filePaths s =
      (Inr True, s\<lparr>trace := trace s @ fallback_events repoPath filePaths out0 forEachRef outcomes\<rparr>)"
    by simp
  with l show ?thesis by blast
qed

lemma fallback_completes:
  assumes ret: "removeLargeFilesWithFilterBranch E repoPath filePaths s = (Inr b, s')"
  shows "b \<and> (\<exists>out0 forEachRef outcomes.
           length outcomes = length (original_refs forEachRef) \<and>
           s' = s\<lparr>trace := trace s @ fallback_events repoPath filePaths out0 forEachRef outcomes\<rparr>)"
proof (cases "simple_git_res E s repoPath")
  case (Some m)
  with ret show ?thesis
    by (simp add: removeLargeFilesWithFilterBranch_def prim_defs)
next
  case None
  define sa where "sa = emit (Log StartingFilterBranch) (emit (SimpleGit repoPath None) s)"
  show ?thesis
  proof (cases "raw_res E sa repoPath (filterBranchArgs filePaths)")
    case (Inl m)
    with ret None show ?thesis
      by (simp add: removeLargeFilesWithFilterBranch_def prim_defs sa_def)
  next
    case (Inr out0)
    note fb = this
    define sc where "sc = emit (Log FinishedFilterBranch)
                            (emit (GitRaw repoPath (filterBranchArgs filePaths) (Inr out0)) sa)"
    show ?thesis
    proof (cases "raw_res E sc repoPath forEachRefArgs")
      case (Inl m)
      with ret None fb show ?thesis
        by (simp add: removeLargeFilesWithFilterBranch_def prim_defs sa_def sc_def)
    next
      case (Inr forEachRef)
      from fallback_transcript [OF None fb [unfolded sa_def] Inr [unfolded sc_def sa_def]]
      obtain outcomes where l: "length outcomes = length (original_refs forEachRef)"
        and r: "removeLargeFilesWithFilterBranch E repoPath filePaths s =
             (Inr True,
              s\<lparr>trace := trace s @ fallback_events repoPath filePaths out0 forEachRef outcomes\<rparr>)"
        by blast
      from r ret have "b" and "s' = s\<lparr>trace := trace s @ fallback_events repoPath filePaths out0 forEachRef outcomes\<rparr>"
        by simp_all
      with l show ?thesis by blast
    qed
  qed
qed

lemma cleanupRepository_events:
  "\<exists>ctor expiry gc.
     cleanupRepository E repoPath s = s\<lparr>trace := trace s @ cleanup_events repoPath ctor expiry gc\<rparr>"
proof (cases "simple_git_res E s repoPath")
  case (Some m)
  then have "cleanupRepository E repoPath s =
      s\<lparr>trace := trace s @ cleanup_events repoPath (Some m) (Inr []) (Inr [])\<rparr>"
    by (simp add: cleanupRepository_def prim_defs emit_def)
  then show ?thesis by blast
next
  case None
  define s2 where "s2 = emit (Log CleaningUp) (emit (SimpleGit repoPath None) s)"
  show ?thesis
  proof (cases "raw_res E s2 repoPath reflogExpireArgs")
    case (Inl m)
    with None have "cleanupRepository E repoPath s =
        s\<lparr>trace := trace s @ cleanup_events repoPath None (Inl m) (Inr [])\<rparr>"
      by (simp add: cleanupRepository_def prim_defs s2_def [symmetric]) (simp add: s2_def emit_def)
    then show ?thesis by blast
  next
    case (Inr out1)
    define s3 where "s3 = emit (GitRaw repoPath reflogExpireArgs (Inr out1)) s2"
    show ?thesis
    proof (cases "raw_res E s3 repoPath gcArgs")
      case (Inl m)
      with None Inr have "cleanupRepository E repoPath s =
          s\<lparr>trace := trace s @ cleanup_events repoPath None (Inr out1) (Inl m)\<rparr>"
        by (simp add: cleanupRepository_def prim_defs s2_def [symmetric] s3_def [symmetric])
           (simp add: s2_def s3_def emit_def)
      then show ?thesis by blast
    next
      case (Inr out2)
      with None \<open>raw_res E s2 repoPath reflogExpireArgs = Inr out1\<close>
      have "cleanupRepository E repoPath s =
          s\<lparr>trace := trace s @ cleanup_events repoPath None (Inr out1) (Inr out2)\<rparr>"
        by (simp add: cleanupRepository_def prim_defs s2_def [symmetric] s3_def [symmetric])
           (simp add: s2_def s3_def emit_def)
      then show ?thesis by blast
    qed
  qed
qed

lemma attemptPush_try_starts:
  "\<exists>r2 rest. trace (snd (attemptPush_try E repoPath url s)) = trace s @ SimpleGit repoPath r2 # rest"
proof (cases "simple_git_res E s repoPath")
  case (Some m)
  then show ?thesis by (simp add: attemptPush_try_def prim_defs trace_emit)
next
  case None
  then show ?thesis
    by (simp add: attemptPush_try_def prim_defs trace_emit split: option.splits)
qed

lemma attemptPush_starts:
  "\<exists>r2 rest. trace (snd (attemptPush E repoPath url isRetry s)) = trace s @ SimpleGit repoPath r2 # rest"
proof -
  obtain r s1 where t: "attemptPush_try E repoPath url s = (r, s1)"
    by (cases "attemptPush_try E repoPath url s")
  from attemptPush_try_starts [of E repoPath url s]
  obtain r2 rest where "trace s1 = trace s @ SimpleGit repoPath r2 # rest"
    unfolding t snd_conv by blast
  then show ?thesis
    by (simp add: attemptPush_def t trace_emit trace_foldl_emit split: option.splits)
qed

text \<open>
  The method run by itself, one \<^verbatim>\<open>await\<close> at a time, is the method as written.
\<close>

lemma fb_finish_deletions:
  "(case fb_next_ref refs s of (t, s') \<Rightarrow> fb_finish E repoPath fps t s') =
     (Inr True, emit (Log RemovedFilesAndRefs) (delete_refs E repoPath refs s))"
proof (induction refs arbitrary: s)
  case Nil
  show ?case by (simp add: fb_next_ref_def)
next
  case (Cons ref rest)
  obtain r s1 where g: "git_raw E repoPath [''update-ref'', ''-d'', ref] s = (r, s1)"
    by (cases "git_raw E repoPath [''update-ref'', ''-d'', ref] s")
  show ?case
  proof (cases r)
    case (Inl m)
    with g Cons.IH [of "emit (LogWarning (CouldNotDeleteRef ref)) s1"] show ?thesis
      by (simp add: fb_next_ref_def)
  next
    case (Inr out)
    with g Cons.IH [of s1] show ?thesis
      by (simp add: fb_next_ref_def)
  qed
qed

lemma fallback_alone:
  "removeLargeFilesWithFilterBranch E repoPath fps s =
     (case fb_start E repoPath s of (t, s1) \<Rightarrow> fb_finish E repoPath fps t s1)"
proof (cases "simple_git_res E s repoPath")
  case (Some m)
  then show ?thesis
    by (simp add: removeLargeFilesWithFilterBranch_def fb_start_def simpleGit_def Let_def)
next
  case None
  define s2 where "s2 = emit (Log StartingFilterBranch) (emit (SimpleGit repoPath None) s)"
  show ?thesis
  proof (cases "raw_res E s2 repoPath (filterBranchArgs fps)")
    case (Inl m)
    with None show ?thesis
      by (simp add: removeLargeFilesWithFilterBranch_def fb_start_def simpleGit_def git_raw_def
            Let_def s2_def)
  next
    case (Inr out)
    define s4 where "s4 = emit (Log FinishedFilterBranch)
                           (emit (GitRaw repoPath (filterBranchArgs fps) (Inr out)) s2)"
    show ?thesis
    proof (cases "raw_res E s4 repoPath forEachRefArgs")
      case (Inl m)
      with None \<open>raw_res E s2 repoPath (filterBranchArgs fps) = Inr out\<close> show ?thesis
        by (simp add: removeLargeFilesWithFilterBranch_def fb_start_def simpleGit_def git_raw_def
              Let_def s2_def s4_def)
    next
      case (Inr fer)
      define refs where "refs = filter (\<lambda>ref. trim ref \<noteq> []) (str_split (CHR 0x0A) fer)"
      define s5 where "s5 = emit (GitRaw repoPath forEachRefArgs (Inr fer)) s4"
      have l: "removeLargeFilesWithFilterBranch E repoPath fps s =
                 (Inr True, emit (Log RemovedFilesAndRefs) (delete_refs E repoPath refs s5))"
        using None \<open>raw_res E s2 repoPath (filterBranchArgs fps) = Inr out\<close> Inr
        by (simp add: removeLargeFilesWithFilterBranch_def simpleGit_def git_raw_def
              Let_def s2_def [symmetric] s4_def [symmetric] refs_def s5_def del: delete_refs.simps)
      have r: "(case fb_start E repoPath s of (t, s1) \<Rightarrow> fb_finish E repoPath fps t s1) =
                 (case fb_next_ref refs s5 of (t, s') \<Rightarrow> fb_finish E repoPath fps t s')"
        using None \<open>raw_res E s2 repoPath (filterBranchArgs fps) = Inr out\<close> Inr
        by (simp add: fb_start_def simpleGit_def git_raw_def
              Let_def s2_def [symmetric] s4_def [symmetric] refs_def s5_def)
      have "(case fb_next_ref refs s5 of (t, s') \<Rightarrow> fb_finish E repoPath fps t s') =
              (Inr True, emit (Log RemovedFilesAndRefs) (delete_refs E repoPath refs s5))"
        by (rule fb_finish_deletions)
      with l r show ?thesis by simp
    qed
  qed
qed

text \<open>
  A run in which \<^verbatim>\<open>git filter-repo\<close> cannot be started: both handlers log their
  warning and start the fallback, the two rewrites interleave, and the second one is still
  waiting for its listing when the first one settles the promise.
\<close>

lemma removeLargeFiles_spawn_error:
  "removeLargeFiles no_git_env ''temp/demo''
     [\<lparr>path_f = ''big.bin'', size_f = 209715200, hash_f = ''aaa1''\<rparr>] init_state =
   (Inr True,
    \<lparr>fs = [],
     trace =
       [Log (RemovingLargeFiles 1),
        Spawn ''temp/demo'' (filterRepoArgs [''big.bin'']) (SpawnError ''spawn git EAGAIN''),
        LogWarning FilterRepoNotFound, SimpleGit ''temp/demo'' None, Log StartingFilterBranch,
        LogWarning FilterRepoFailed, SimpleGit ''temp/demo'' None, Log StartingFilterBranch,
        GitRaw ''temp/demo'' (filterBranchArgs [''big.bin'']) (Inr []), Log FinishedFilterBranch,
        GitRaw ''temp/demo'' (filterBranchArgs [''big.bin'']) (Inr []), Log FinishedFilterBranch,
        GitRaw ''temp/demo'' forEachRefArgs (Inr (''refs/original/refs/heads/main'' @ [CHR 0x0A])),
        GitRaw ''temp/demo'' [''update-ref'', ''-d'', ''refs/original/refs/heads/main''] (Inr []),
        Log RemovedFilesAndRefs,
        LeftRunning ''temp/demo'' AwaitForEachRef]\<rparr>)"
  by (simp add: model_defs prim_defs fb_start_def fb_next_ref_def leave_running_def
        no_git_env_def quiet_env_def)

text \<open>
  C5, amended. The fallback: when the constructor works and \<^verbatim>\<open>filter-branch\<close> and the
  listing of \<^verbatim>\<open>refs/original/\<close> succeed, \<^verbatim>\<open>removeLargeFilesWithFilterBranch\<close>
  returns \<^verbatim>\<open>true\<close> whatever the deletions do; and whenever it returns, it returns
  \<^verbatim>\<open>true\<close> with the transcript \<^verbatim>\<open>filter-branch\<close>, the listing, then for every
  listed reference, in order, one \<^verbatim>\<open>update-ref -d\<close>, followed by a warning when that
  deletion failed. The cleanup: once \<^verbatim>\<open>removeLargeFiles\<close> has returned in
  \<^verbatim>\<open>pushToGitHub\<close>, by either strategy, after a \<^verbatim>\<open>git filter-repo\<close> that could be
  started, the next calls are those of \<^verbatim>\<open>cleanupRepository\<close>: the constructor,
  \<^verbatim>\<open>reflog expire --expire=now --all\<close> when the constructor worked, and
  \<^verbatim>\<open>gc --prune=now --aggressive\<close> when that expiry succeeded. The first of the three
  that fails is followed by a warning and by nothing more of the cleanup. In every case the
  second \<^verbatim>\<open>attemptPush\<close> comes next, and the recovery ends as that one does. (When
  \<^verbatim>\<open>git filter-repo\<close> cannot be started, a second fallback rewrite is still running at
  that time, see \<^verbatim>\<open>removeLargeFiles\<close>; those runs are left out.)
\<close>

theorem rewrite_then_best_effort_cleanup:
  assumes scan: "findLargeFiles E repoPath default_sizeLimit s0 = (Inr largeFiles, s1)"
    and found: "largeFiles \<noteq> []"
    and started: "\<forall>s m. spawn_res E s repoPath (filterRepoArgs (map path_f largeFiles)) \<noteq> SpawnError m"
    and rewritten: "removeLargeFiles E repoPath largeFiles (logLargeFiles largeFiles s1) = (Inr b, s4)"
  shows "((\<forall>s. simple_git_res E s repoPath = None) \<and>
          (\<forall>s. \<exists>out. raw_res E s repoPath (filterBranchArgs filePaths) = Inr out) \<and>
          (\<forall>s. raw_res E s repoPath forEachRefArgs = Inr forEachRef) \<longrightarrow>
          (\<exists>out outcomes.
             length outcomes = length (original_refs forEachRef) \<and>
             removeLargeFilesWithFilterBranch E repoPath filePaths s =
               (Inr True,
                s\<lparr>trace := trace s @
                     fallback_events repoPath filePaths out forEachRef outcomes\<rparr>))) \<and>
         (\<forall>ok s'.
            removeLargeFilesWithFilterBranch E repoPath filePaths s = (Inr ok, s') \<longrightarrow>
            ok \<and>
            (\<exists>out listed outcomes.
               length outcomes = length (original_refs listed) \<and>
               s' = s\<lparr>trace := trace s @
                         fallback_events repoPath filePaths out listed outcomes\<rparr>)) \<and>
         (\<exists>ctor expiry gc r2 rest.
            trace (snd (pushToGitHub_recover E repoPath url s0)) =
              trace s4 @ cleanup_events repoPath ctor expiry gc @ SimpleGit repoPath r2 # rest) \<and>
         fst (pushToGitHub_recover E repoPath url s0) =
           retry_outcome (fst (attemptPush E repoPath url True (cleanupRepository E repoPath s4)))"
proof -
  have A: "\<exists>out outcomes.
             length outcomes = length (original_refs forEachRef) \<and>
             removeLargeFilesWithFilterBranch E repoPath filePaths s =
               (Inr True,
                s\<lparr>trace := trace s @
                     fallback_events repoPath filePaths out forEachRef outcomes\<rparr>)"
    if git: "\<forall>s. simple_git_res E s repoPath = None"
      and fb: "\<forall>s. \<exists>out. raw_res E s repoPath (filterBranchArgs filePaths) = Inr out"
      and fer: "\<forall>s. raw_res E s repoPath forEachRefArgs = Inr forEachRef"
  proof -
    from git have g: "simple_git_res E s repoPath = None"
      by blast
    from fb obtain out where o: "raw_res E (emit (Log StartingFilterBranch) (emit (SimpleGit repoPath None) s))
               repoPath (filterBranchArgs filePaths) = Inr out"
      by blast
    from fer have f: "raw_res E
               (emit (Log FinishedFilterBranch)
                 (emit (GitRaw repoPath (filterBranchArgs filePaths) (Inr out))
                   (emit (Log StartingFilterBranch) (emit (SimpleGit repoPath None) s))))
               repoPath forEachRefArgs = Inr forEachRef"
      by blast
    from fallback_transcript [OF g o f] show ?thesis
      by blast
  qed
  have A': "\<forall>ok s'.
            removeLargeFilesWithFilterBranch E repoPath filePaths s = (Inr ok, s') \<longrightarrow>
            ok \<and>
            (\<exists>out listed outcomes.
               length outcomes = length (original_refs listed) \<and>
               s' = s\<lparr>trace := trace s @
                         fallback_events repoPath filePaths out listed outcomes\<rparr>)"
    using fallback_completes [of E repoPath filePaths s] by blast
  define s5 where "s5 = cleanupRepository E repoPath s4"
  obtain r6 s6 where ap: "attemptPush E repoPath url True s5 = (r6, s6)"
    by (cases "attemptPush E repoPath url True s5")
  have rec: "pushToGitHub_recover E repoPath url s0 =
      (case r6 of
         Inl m \<Rightarrow> (Inl m, s6)
       | Inr retrySuccess \<Rightarrow>
           if retrySuccess then (Inr (), emit (Log PushedAfterRemoving) s6)
           else (Inl ''Failed to push even after removing large files'', s6))"
    using found
    by (simp add: pushToGitHub_recover_def scan rewritten s5_def [symmetric] ap)
  have B: "\<exists>ctor expiry gc r2 rest.
            trace (snd (pushToGitHub_recover E repoPath url s0)) =
              trace s4 @ cleanup_events repoPath ctor expiry gc @ SimpleGit repoPath r2 # rest"
  proof -
    obtain ctor expiry gc where c: "trace s5 = trace s4 @ cleanup_events repoPath ctor expiry gc"
      using cleanupRepository_events [of E repoPath s4] by (auto simp: s5_def)
    from attemptPush_starts [of E repoPath url True s5]
    obtain r2 rest where x: "trace s6 = trace s5 @ SimpleGit repoPath r2 # rest"
      unfolding ap snd_conv by blast
    have "\<exists>Y. trace (snd (pushToGitHub_recover E repoPath url s0)) = trace s6 @ Y"
      by (simp add: rec trace_emit split: sum.splits)
    then obtain Y where "trace (snd (pushToGitHub_recover E repoPath url s0)) = trace s6 @ Y"
      by blast
    with c x have "trace (snd (pushToGitHub_recover E repoPath url s0)) =
              trace s4 @ cleanup_events repoPath ctor expiry gc @ SimpleGit repoPath r2 # (rest @ Y)"
      by simp
    then show ?thesis by blast
  qed
  have C: "fst (pushToGitHub_recover E repoPath url s0) =
           retry_outcome (fst (attemptPush E repoPath url True (cleanupRepository E repoPath s4)))"
    by (simp add: rec retry_outcome_def s5_def [symmetric] ap split: sum.splits)
  from A A' B C show ?thesis by blast
qed

theorem rewrite_then_best_effort_cleanup_witness:
  "removeLargeFilesWithFilterBranch fallback_env ''temp/demo2'' [''assets/video.mp4''] init_state =
     (Inr True,
      \<lparr>fs = [],
       trace = [SimpleGit ''temp/demo2'' None, Log StartingFilterBranch,
                GitRaw ''temp/demo2'' (filterBranchArgs [''assets/video.mp4'']) (Inr []),
                Log FinishedFilterBranch,
                GitRaw ''temp/demo2'' forEachRefArgs
                  (Inr (''refs/original/refs/heads/main'' @ [CHR 0x0A] @
                        ''refs/original/refs/tags/v1'' @ [CHR 0x0A])),
                GitRaw ''temp/demo2'' [''update-ref'', ''-d'', ''refs/original/refs/heads/main'']
                  (Inr []),
                GitRaw ''temp/demo2'' [''update-ref'', ''-d'', ''refs/original/refs/tags/v1'']
                  (Inl ''error: cannot lock ref''),
                LogWarning (CouldNotDeleteRef ''refs/original/refs/tags/v1''),
                Log RemovedFilesAndRefs]\<rparr>) \<and>
   pushToGitHub_recover fallback_env ''temp/demo2''
       ''alice:ghp_token@https://github.com/alice/demo2.git'' init_state =
     (Inr (),
      \<lparr>fs = [],
       trace =
     [Spawn ''temp/demo2'' [''rev-list'', ''--objects'', ''--all'']
        (Exit 0 (''b10b assets/video.mp4'' @ [CHR 0x0A])),
      Spawn ''temp/demo2'' [''cat-file'', ''-s'', ''b10b''] (Exit 0 (''157286400'' @ [CHR 0x0A])),
      Log (FoundLargeFiles 1), Log (LargeFileLine ''assets/video.mp4'' 157286400),
      Log (RemovingLargeFiles 1),
      Spawn ''temp/demo2'' (filterRepoArgs [''assets/video.mp4'']) (Exit 1 []),
      LogWarning FilterRepoFailed,
      SimpleGit ''temp/demo2'' None, Log StartingFilterBranch,
      GitRaw ''temp/demo2'' (filterBranchArgs [''assets/video.mp4'']) (Inr []),
      Log FinishedFilterBranch,
      GitRaw ''temp/demo2'' forEachRefArgs
        (Inr (''refs/original/refs/heads/main'' @ [CHR 0x0A] @
              ''refs/original/refs/tags/v1'' @ [CHR 0x0A])),
      GitRaw ''temp/demo2'' [''update-ref'', ''-d'', ''refs/original/refs/heads/main''] (Inr []),
      GitRaw ''temp/demo2'' [''update-ref'', ''-d'', ''refs/original/refs/tags/v1'']
        (Inl ''error: cannot lock ref''),
      LogWarning (CouldNotDeleteRef ''refs/original/refs/tags/v1''),
      Log RemovedFilesAndRefs,
      SimpleGit ''temp/demo2'' None, Log CleaningUp,
      GitRaw ''temp/demo2'' reflogExpireArgs (Inr []),
      GitRaw ''temp/demo2'' gcArgs (Inr []),
      Log CleanupCompleted,
      SimpleGit ''temp/demo2'' None,
      GitRemoveRemote ''temp/demo2'' ''github'' None,
      GitAddRemote ''temp/demo2'' ''github''
        ''alice:ghp_token@https://github.com/alice/demo2.git'' None,
      GitPush ''temp/demo2'' ''github'' ''--mirror'' [''--force''] None,
      Log PushedAfterRemoving]\<rparr>)"
proof -
  let ?E = fallback_env
  let ?v = "\<lparr>path_f = ''assets/video.mp4'', size_f = 157286400, hash_f = ''b10b''\<rparr>"
  let ?s1 = "snd (findLargeFiles ?E ''temp/demo2'' default_sizeLimit init_state)"
  have git: "\<forall>s. simple_git_res ?E s ''temp/demo2'' = None"
    by (simp add: fallback_env_def quiet_env_def)
  have fb: "\<forall>s. \<exists>out. raw_res ?E s ''temp/demo2'' (filterBranchArgs [''assets/video.mp4'']) = Inr out"
    by (simp add: fallback_env_def quiet_env_def filterBranchArgs_def forEachRefArgs_def)
  have fer: "\<forall>s. raw_res ?E s ''temp/demo2'' forEachRefArgs =
               Inr (''refs/original/refs/heads/main'' @ [CHR 0x0A] @
                    ''refs/original/refs/tags/v1'' @ [CHR 0x0A])"
    by (simp add: fallback_env_def quiet_env_def)
  have scan: "findLargeFiles ?E ''temp/demo2'' default_sizeLimit init_state = (Inr [?v], ?s1)"
    by (simp add: model_defs prim_defs fallback_env_def quiet_env_def)
  have found: "[?v] \<noteq> []"
    by simp
  have started: "\<forall>s m. spawn_res ?E s ''temp/demo2'' (filterRepoArgs (map path_f [?v])) \<noteq> SpawnError m"
    by (simp add: fallback_env_def quiet_env_def filterRepoArgs_def)
  have rewritten: "removeLargeFiles ?E ''temp/demo2'' [?v] (logLargeFiles [?v] ?s1) =
      (Inr True, snd (removeLargeFiles ?E ''temp/demo2'' [?v] (logLargeFiles [?v] ?s1)))"
    by (simp add: model_defs prim_defs fallback_env_def quiet_env_def)
  have ev1: "removeLargeFilesWithFilterBranch fallback_env ''temp/demo2'' [''assets/video.mp4''] init_state =
     (Inr True,
      \<lparr>fs = [],
       trace = [SimpleGit ''temp/demo2'' None, Log StartingFilterBranch,
                GitRaw ''temp/demo2'' (filterBranchArgs [''assets/video.mp4'']) (Inr []),
                Log FinishedFilterBranch,
                GitRaw ''temp/demo2'' forEachRefArgs
                  (Inr (''refs/original/refs/heads/main'' @ [CHR 0x0A] @
                        ''refs/original/refs/tags/v1'' @ [CHR 0x0A])),
                GitRaw ''temp/demo2'' [''update-ref'', ''-d'', ''refs/original/refs/heads/main'']
                  (Inr []),
                GitRaw ''temp/demo2'' [''update-ref'', ''-d'', ''refs/original/refs/tags/v1'']
                  (Inl ''error: cannot lock ref''),
                LogWarning (CouldNotDeleteRef ''refs/original/refs/tags/v1''),
                Log RemovedFilesAndRefs]\<rparr>)"
    by (simp add: model_defs prim_defs fallback_env_def quiet_env_def)
  have ev2: "pushToGitHub_recover fallback_env ''temp/demo2''
       ''alice:ghp_token@https://github.com/alice/demo2.git'' init_state =
     (Inr (),
      \<lparr>fs = [],
       trace =
     [Spawn ''temp/demo2'' [''rev-list'', ''--objects'', ''--all'']
        (Exit 0 (''b10b assets/video.mp4'' @ [CHR 0x0A])),
      Spawn ''temp/demo2'' [''cat-file'', ''-s'', ''b10b''] (Exit 0 (''157286400'' @ [CHR 0x0A])),
      Log (FoundLargeFiles 1), Log (LargeFileLine ''assets/video.mp4'' 157286400),
      Log (RemovingLargeFiles 1),
      Spawn ''temp/demo2'' (filterRepoArgs [''assets/video.mp4'']) (Exit 1 []),
      LogWarning FilterRepoFailed,
      SimpleGit ''temp/demo2'' None, Log StartingFilterBranch,
      GitRaw ''temp/demo2'' (filterBranchArgs [''assets/video.mp4'']) (Inr []),
      Log FinishedFilterBranch,
      GitRaw ''temp/demo2'' forEachRefArgs
        (Inr (''refs/original/refs/heads/main'' @ [CHR 0x0A] @
              ''refs/original/refs/tags/v1'' @ [CHR 0x0A])),
      GitRaw ''temp/demo2'' [''update-ref'', ''-d'', ''refs/original/refs/heads/main''] (Inr []),
      GitRaw ''temp/demo2'' [''update-ref'', ''-d'', ''refs/original/refs/tags/v1'']
        (Inl ''error: cannot lock ref''),
      LogWarning (CouldNotDeleteRef ''refs/original/refs/tags/v1''),
      Log RemovedFilesAndRefs,
      SimpleGit ''temp/demo2'' None, Log CleaningUp,
      GitRaw ''temp/demo2'' reflogExpireArgs (Inr []),
      GitRaw ''temp/demo2'' gcArgs (Inr []),
      Log CleanupCompleted,
      SimpleGit ''temp/demo2'' None,
      GitRemoveRemote ''temp/demo2'' ''github'' None,
      GitAddRemote ''temp/demo2'' ''github''
        ''alice:ghp_token@https://github.com/alice/demo2.git'' None,
      GitPush ''temp/demo2'' ''github'' ''--mirror'' [''--force''] None,
      Log PushedAfterRemoving]\<rparr>)"
    by (simp add: model_defs prim_defs fallback_env_def quiet_env_def)
  from rewrite_then_best_effort_cleanup [OF scan found started rewritten] git fb fer ev1 ev2
  show ?thesis
    by simp
qed

text \<open>
  C5 as stated fails: \<^verbatim>\<open>reflog expire\<close> fails after a rewrite by
  \<^verbatim>\<open>git filter-repo\<close>; the warning is logged, \<^verbatim>\<open>gc\<close> is not run, and the push is
  retried.
\<close>

theorem cleanup_skips_gc:
  "pushToGitHub_recover reflog_fails_env ''temp/demo2''
       ''alice:ghp_token@https://github.com/alice/demo2.git'' init_state =
     (Inr (),
      \<lparr>fs = [],
       trace =
         [Spawn ''temp/demo2'' [''rev-list'', ''--objects'', ''--all'']
            (Exit 0 (''b10b assets/video.mp4'' @ [CHR 0x0A])),
          Spawn ''temp/demo2'' [''cat-file'', ''-s'', ''b10b''] (Exit 0 (''157286400'' @ [CHR 0x0A])),
          Log (FoundLargeFiles 1), Log (LargeFileLine ''assets/video.mp4'' 157286400),
          Log (RemovingLargeFiles 1),
          Spawn ''temp/demo2'' (filterRepoArgs [''assets/video.mp4'']) (Exit 0 []),
          Log FilterRepoSucceeded,
          SimpleGit ''temp/demo2'' None, Log CleaningUp,
          GitRaw ''temp/demo2'' reflogExpireArgs (Inl ''error: cannot lock ref HEAD''),
          LogWarning (GitCleanupWarning ''error: cannot lock ref HEAD''),
          SimpleGit ''temp/demo2'' None,
          GitRemoveRemote ''temp/demo2'' ''github'' None,
          GitAddRemote ''temp/demo2'' ''github''
            ''alice:ghp_token@https://github.com/alice/demo2.git'' None,
          GitPush ''temp/demo2'' ''github'' ''--mirror'' [''--force''] None,
          Log PushedAfterRemoving]\<rparr>)"
  by (simp add: model_defs prim_defs reflog_fails_env_def quiet_env_def)

text \<open>
  C10. \<^verbatim>\<open>removeLargeFiles\<close> with the empty list returns \<^verbatim>\<open>true\<close> and leaves the
  state as it is: nothing is spawned, nothing is logged, no directory changes.
\<close>

theorem removeLargeFiles_empty_identity:
  "removeLargeFiles E repoPath [] s = (Inr True, s)"
  by (simp add: removeLargeFiles_def)

end
